theory Spec2Isabelle
  imports Main "HOL-Library.Sublist"
begin

section \<open>JavaScript values and errors\<close>

text \<open>
  The provider is TypeScript; the types are erased when it runs, and the values it reads
  from the outside (parsed JSON, ID token claims, directory responses) are plain
  JavaScript values. \<open>JUndefined\<close> is \<^verbatim>\<open>undefined\<close>. An object is the list of its own
  properties in insertion order. The payload of \<open>JNumber\<close> is never inspected by the
  provider beyond its truthiness.
\<close>

datatype jsval =
    JUndefined
  | JNull
  | JBool bool
  | JNumber int
  | JString string
  | JArray "jsval list"
  | JObject "(string \<times> jsval) list"

text \<open>
  What an \<^verbatim>\<open>async\<close> handler can reject with: the \<^verbatim>\<open>TypeError\<close> of a property read on
  \<^verbatim>\<open>undefined\<close>/\<^verbatim>\<open>null\<close> or of calling something that is not a function, the
  \<^verbatim>\<open>SyntaxError\<close> of \<^verbatim>\<open>JSON.parse\<close>, MSAL's \<^verbatim>\<open>InteractionRequiredAuthError\<close> (the only class
  the provider tests with \<^verbatim>\<open>instanceof\<close>) and any other error of a collaborator.
\<close>

datatype js_error =
    TypeError
  | SyntaxError
  | InteractionRequiredAuthError string
  | OtherError string

text \<open>ToBoolean, as used by \<^verbatim>\<open>if (x)\<close>, \<^verbatim>\<open>!x\<close> and \<^verbatim>\<open>a || b\<close>.\<close>

fun truthy :: "jsval \<Rightarrow> bool" where
  "truthy JUndefined = False"
| "truthy JNull = False"
| "truthy (JBool b) = b"
| "truthy (JNumber n) = (n \<noteq> 0)"
| "truthy (JString s) = (s \<noteq> [])"
| "truthy (JArray vs) = True"
| "truthy (JObject ps) = True"

text \<open>\<^verbatim>\<open>obj[key]\<close> on an object given by its own properties: a missing key reads \<^verbatim>\<open>undefined\<close>.\<close>

definition own_prop :: "(string \<times> jsval) list \<Rightarrow> string \<Rightarrow> jsval" where
  "own_prop ps k = (case map_of ps k of None \<Rightarrow> JUndefined | Some v \<Rightarrow> v)"

text \<open>
  \<^verbatim>\<open>v[key]\<close> / \<^verbatim>\<open>v.key\<close> on any value, for the keys the provider reads (\<^verbatim>\<open>nonce\<close>, \<^verbatim>\<open>stage\<close>,
  \<^verbatim>\<open>path\<close>, \<^verbatim>\<open>id\<close>, \<^verbatim>\<open>value\<close>, \<^verbatim>\<open>@odata.nextLink\<close>), none of which is on a prototype:
  \<^verbatim>\<open>undefined\<close> and \<^verbatim>\<open>null\<close> throw, an object gives its property, everything else
  \<^verbatim>\<open>undefined\<close>.
\<close>

fun get_member :: "jsval \<Rightarrow> string \<Rightarrow> js_error + jsval" where
  "get_member JUndefined k = Inl TypeError"
| "get_member JNull k = Inl TypeError"
| "get_member (JObject ps) k = Inr (own_prop ps k)"
| "get_member v k = Inr JUndefined"

text \<open>
  \<^verbatim>\<open>a === b\<close> where \<open>a\<close> was freshly produced (by \<^verbatim>\<open>JSON.parse\<close>): primitives compare
  by value, and a fresh array or object is identical to nothing else.
\<close>

fun strict_equals :: "jsval \<Rightarrow> jsval \<Rightarrow> bool" where
  "strict_equals JUndefined JUndefined = True"
| "strict_equals JNull JNull = True"
| "strict_equals (JBool a) (JBool b) = (a = b)"
| "strict_equals (JNumber a) (JNumber b) = (a = b)"
| "strict_equals (JString a) (JString b) = (a = b)"
| "strict_equals a b = False"

text \<open>
  \<^verbatim>\<open>creds.includes(elem)\<close> for a string \<open>elem\<close>: \<^verbatim>\<open>Array.prototype.includes\<close> on an array
  (membership), \<^verbatim>\<open>String.prototype.includes\<close> on a string (substring); no other value
  has an \<^verbatim>\<open>includes\<close> method, so the call throws.
\<close>

fun js_includes :: "jsval \<Rightarrow> string \<Rightarrow> js_error + bool" where
  "js_includes (JArray vs) elem = Inr (JString elem \<in> set vs)"
| "js_includes (JString s) elem = Inr (sublist elem s)"
| "js_includes v elem = Inl TypeError"

text \<open>
  \<^verbatim>\<open>xs.filter(p)\<close> with a callback that may throw: the elements are visited in order and
  the first throw ends the call.
\<close>

fun filter_js :: "('a \<Rightarrow> js_error + bool) \<Rightarrow> 'a list \<Rightarrow> js_error + 'a list" where
  "filter_js p [] = Inr []"
| "filter_js p (x # xs) =
     (case p x of
        Inl e \<Rightarrow> Inl e
      | Inr b \<Rightarrow>
          (case filter_js p xs of
             Inl e \<Rightarrow> Inl e
           | Inr ys \<Rightarrow> Inr (if b then x # ys else ys)))"

section \<open>Constants (Constants.ts)\<close>

definition SIGN_IN :: string where "SIGN_IN = ''sign_in''"
definition SIGN_OUT :: string where "SIGN_OUT = ''sign_out''"
definition ACQUIRE_TOKEN :: string where "ACQUIRE_TOKEN = ''acquire_token''"

definition GROUPS :: string where "GROUPS = ''groups''"
definition ROLES :: string where "ROLES = ''roles''"
definition CLAIM_NAMES :: string where "CLAIM_NAMES = ''_claim_name''"
definition CLAIM_SOURCES :: string where "CLAIM_SOURCES = ''_claim_sources''"

definition NOT_PERMITTED :: string where "NOT_PERMITTED = ''Not permitted''"
definition INVALID_TOKEN :: string where "INVALID_TOKEN = ''Invalid token''"
definition CANNOT_DETERMINE_APP_STAGE :: string where
  "CANNOT_DETERMINE_APP_STAGE = ''Cannot determine application stage''"
definition CANNOT_VALIDATE_TOKEN :: string where
  "CANNOT_VALIDATE_TOKEN = ''Cannot validate token''"
definition NONCE_MISMATCH :: string where "NONCE_MISMATCH = ''Nonce does not match''"
definition INTERACTION_REQUIRED :: string where "INTERACTION_REQUIRED = ''interaction_required''"
definition TOKEN_ACQUISITION_FAILED :: string where
  "TOKEN_ACQUISITION_FAILED = ''Token acquisition failed''"
definition AUTH_CODE_NOT_OBTAINED :: string where
  "AUTH_CODE_NOT_OBTAINED = ''Authorization code cannot be obtained''"
definition TOKEN_NOT_FOUND :: string where "TOKEN_NOT_FOUND = ''No token found''"
definition STATE_NOT_FOUND :: string where "STATE_NOT_FOUND = ''State not found''"
definition USER_HAS_NO_ROLE :: string where "USER_HAS_NO_ROLE = ''User does not have any roles''"
definition USER_NOT_IN_ROLE :: string where "USER_NOT_IN_ROLE = ''User does not have this role''"
definition USER_HAS_NO_GROUP :: string where
  "USER_HAS_NO_GROUP = ''User does not have any groups''"
definition USER_NOT_IN_GROUP :: string where
  "USER_NOT_IN_GROUP = ''User does not have this group''"
definition METHOD_NOT_ALLOWED :: string where
  "METHOD_NOT_ALLOWED = ''Method not allowed for this route''"

section \<open>The access-rule evaluator\<close>

text \<open>
  Modelled from the spec: the type \<^verbatim>\<open>AccessRule\<close> of Types.ts, which is not among the
  sources. The spec gives \<^verbatim>\<open>{methods, groups?, roles?}\<close>; an optional property that is
  absent is \<open>None\<close>.
\<close>

record AccessRule =
  methods :: "string list"
  groups :: "string list option"
  roles :: "string list option"

text \<open>
  \<^verbatim>\<open>applyAccessRule(method, rule, creds, isGroups)\<close>. The result pairs what the call
  returns (or throws: \<^verbatim>\<open>rule.groups.filter\<close> on an absent list, \<^verbatim>\<open>creds.includes\<close> on a
  value without that method) with the lines it writes to the console.
\<close>

definition applyAccessRule ::
  "string \<Rightarrow> AccessRule \<Rightarrow> jsval \<Rightarrow> bool \<Rightarrow> (js_error + bool) \<times> string list" where
  "applyAccessRule method rule creds isGroups =
     (if method \<in> set (methods rule) then
        (if isGroups then
           (case groups rule of
              None \<Rightarrow> (Inl TypeError, [])
            | Some gs \<Rightarrow>
                (case filter_js (\<lambda>elem. js_includes creds elem) gs of
                   Inl e \<Rightarrow> (Inl e, [])
                 | Inr intersection \<Rightarrow>
                     if length intersection < 1 then (Inr False, [USER_NOT_IN_GROUP])
                     else (Inr True, [])))
         else
           (case roles rule of
              None \<Rightarrow> (Inl TypeError, [])
            | Some rs \<Rightarrow>
                (case filter_js (\<lambda>elem. js_includes creds elem) rs of
                   Inl e \<Rightarrow> (Inl e, [])
                 | Inr intersection \<Rightarrow>
                     if length intersection < 1 then (Inr False, [USER_NOT_IN_ROLE])
                     else (Inr True, []))))
      else (Inr False, [METHOD_NOT_ALLOWED]))"

text \<open>The list the evaluator intersects the credentials with: absent reads as empty here.\<close>

definition required :: "AccessRule \<Rightarrow> bool \<Rightarrow> string list" where
  "required rule isGroups =
     (case (if isGroups then groups rule else roles rule) of None \<Rightarrow> [] | Some xs \<Rightarrow> xs)"

section \<open>Objects: property order, assignment, spread\<close>

text \<open>
  An object is the list of its own properties in insertion order, each key once.
  \<^verbatim>\<open>Object.keys\<close>, \<^verbatim>\<open>Object.values\<close>, spread and rest enumerate integer-like keys (the
  canonical decimal form of an integer below \<open>2^32 - 1\<close>) first, in ascending numeric
  order, and then all other keys in insertion order.
\<close>

definition decimal_value :: "string \<Rightarrow> int" where
  "decimal_value k = foldl (\<lambda>n c. 10 * n + (of_char c - 48)) 0 k"

definition array_index :: "string \<Rightarrow> int option" where
  "array_index k =
     (if k \<noteq> [] \<and> list_all (\<lambda>c. c \<in> set ''0123456789'') k
         \<and> (k = ''0'' \<or> hd k \<noteq> CHR ''0'') \<and> decimal_value k < 4294967295
      then Some (decimal_value k) else None)"

definition own_properties :: "(string \<times> 'a) list \<Rightarrow> (string \<times> 'a) list" where
  "own_properties ps =
     sort_key (\<lambda>(k, v). case array_index k of None \<Rightarrow> 0 | Some n \<Rightarrow> n)
       (filter (\<lambda>(k, v). array_index k \<noteq> None) ps)
     @ filter (\<lambda>(k, v). array_index k = None) ps"

definition Object_keys :: "(string \<times> 'a) list \<Rightarrow> string list" where
  "Object_keys ps = map fst (own_properties ps)"

definition Object_values :: "(string \<times> 'a) list \<Rightarrow> 'a list" where
  "Object_values ps = map snd (own_properties ps)"

text \<open>\<^verbatim>\<open>obj[k] = v\<close>: an existing property keeps its place, a new one goes last.\<close>

definition js_set :: "string \<Rightarrow> 'a \<Rightarrow> (string \<times> 'a) list \<Rightarrow> (string \<times> 'a) list" where
  "js_set k v ps =
     (if k \<in> fst ` set ps then map (\<lambda>(k', v'). if k' = k then (k', v) else (k', v')) ps
      else ps @ [(k, v)])"

text \<open>
  One \<^verbatim>\<open>...src\<close> inside an object literal: the properties of \<open>src\<close> are assigned in
  enumeration order; spreading \<^verbatim>\<open>undefined\<close> adds nothing.
\<close>

definition spread_into :: "(string \<times> 'a) list \<Rightarrow> (string \<times> 'a) list option \<Rightarrow> (string \<times> 'a) list" where
  "spread_into obj src =
     (case src of
        None \<Rightarrow> obj
      | Some ps \<Rightarrow> fold (\<lambda>(k, v). js_set k v) (own_properties ps) obj)"

text \<open>The properties of an object that may be \<^verbatim>\<open>undefined\<close>.\<close>

definition properties_of :: "(string \<times> 'a) list option \<Rightarrow> (string \<times> 'a) list" where
  "properties_of obj = (case obj of None \<Rightarrow> [] | Some ps \<Rightarrow> ps)"

text \<open>A computed key \<^verbatim>\<open>[name]\<close> whose name is \<^verbatim>\<open>undefined\<close> is the key \<^verbatim>\<open>"undefined"\<close>.\<close>

definition property_key :: "string option \<Rightarrow> string" where
  "property_key name = (case name of None \<Rightarrow> ''undefined'' | Some n \<Rightarrow> n)"

text \<open>\<^verbatim>\<open>xs.findIndex(p)\<close>: the first index whose element satisfies \<open>p\<close>, or \<open>-1\<close>.\<close>

fun findIndex :: "('a \<Rightarrow> bool) \<Rightarrow> 'a list \<Rightarrow> int" where
  "findIndex p [] = - 1"
| "findIndex p (x # xs) =
     (if p x then 0 else (let i = findIndex p xs in if i < 0 then - 1 else i + 1))"

text \<open>\<^verbatim>\<open>xs[i]\<close>: \<^verbatim>\<open>undefined\<close> (\<open>None\<close>) outside the array, in particular at \<open>-1\<close>.\<close>

definition element_at :: "'a list \<Rightarrow> int \<Rightarrow> 'a option" where
  "element_at xs i = (if 0 \<le> i \<and> nat i < length xs then Some (xs ! nat i) else None)"

section \<open>\<^verbatim>\<open>JSON.stringify\<close> on the values the provider passes to it\<close>

text \<open>
  QuoteJSONString: the two-character escapes, \<^verbatim>\<open>\u00XX\<close> for the other control
  characters, every other character as it is.
\<close>

definition hex_digit :: "nat \<Rightarrow> char" where
  "hex_digit n = ''0123456789abcdef'' ! (n mod 16)"

definition quote_char :: "char \<Rightarrow> string" where
  "quote_char c =
     (if c = CHR 0x08 then [CHR 0x5C, CHR ''b'']
      else if c = CHR 0x09 then [CHR 0x5C, CHR ''t'']
      else if c = CHR 0x0A then [CHR 0x5C, CHR ''n'']
      else if c = CHR 0x0C then [CHR 0x5C, CHR ''f'']
      else if c = CHR 0x0D then [CHR 0x5C, CHR ''r'']
      else if c = CHR 0x22 then [CHR 0x5C, CHR 0x22]
      else if c = CHR 0x5C then [CHR 0x5C, CHR 0x5C]
      else if (of_char c :: nat) < 0x20 then
        [CHR 0x5C, CHR ''u'', CHR ''0'', CHR ''0'',
         hex_digit (of_char c div 16), hex_digit (of_char c mod 16)]
      else [c])"

definition QuoteJSONString :: "string \<Rightarrow> string" where
  "QuoteJSONString s = CHR 0x22 # concat (map quote_char s) @ [CHR 0x22]"

text \<open>The elements of an array, separated by commas, up to the closing bracket.\<close>

fun array_body :: "string list \<Rightarrow> string" where
  "array_body [] = '']''"
| "array_body [x] = QuoteJSONString x @ '']''"
| "array_body (x # y # zs) = QuoteJSONString x @ '','' @ array_body (y # zs)"

text \<open>\<^verbatim>\<open>JSON.stringify(scopes)\<close> for a \<^verbatim>\<open>string[]\<close>.\<close>

definition JSON_stringify_strings :: "string list \<Rightarrow> string" where
  "JSON_stringify_strings xs = CHR ''['' # array_body xs"

text \<open>
  \<^verbatim>\<open>JSON.stringify({stage: ..., path: ..., nonce: ...})\<close> for the state envelope: a
  property whose value is \<^verbatim>\<open>undefined\<close> is left out.
\<close>

definition JSON_stringify_state :: "string \<Rightarrow> string \<Rightarrow> string option \<Rightarrow> string" where
  "JSON_stringify_state stage path nonce =
     ''{'' @ QuoteJSONString ''stage'' @ '':'' @ QuoteJSONString stage
     @ '','' @ QuoteJSONString ''path'' @ '':'' @ QuoteJSONString path
     @ (case nonce of
          None \<Rightarrow> []
        | Some n \<Rightarrow> '','' @ QuoteJSONString ''nonce'' @ '':'' @ QuoteJSONString n)
     @ ''}''"

section \<open>Data model\<close>

text \<open>
  Modelled from the spec: the types declared in Types.ts (\<^verbatim>\<open>AppSettings\<close> with its
  \<^verbatim>\<open>authRoutes\<close>, \<^verbatim>\<open>Resource\<close>, \<^verbatim>\<open>GuardOptions\<close>, \<^verbatim>\<open>TokenOptions\<close>,
  \<^verbatim>\<open>AuthCodeParams\<close>), which is not among the sources. Each record carries the
  properties the provider reads or writes, under the names the code uses; the spec gives
  the session and the resource in its data model. The shapes of MSAL's own types
  (\<^verbatim>\<open>AccountInfo\<close>, \<^verbatim>\<open>AuthorizationCodeRequest\<close>, \<^verbatim>\<open>AuthorizationUrlRequest\<close>,
  \<^verbatim>\<open>SilentFlowRequest\<close>, \<^verbatim>\<open>AuthenticationResult\<close>) are those of the initial values in
  \<^verbatim>\<open>signIn\<close>. An optional property, or one that may be \<^verbatim>\<open>undefined\<close> or \<^verbatim>\<open>null\<close>, has
  an option type.
\<close>

record AuthRoutes =
  redirect :: string
  error :: string
  unauthorized :: string
  postLogin :: string
  postLogout :: string

record Resource =
  scopes :: "string list"

record AppSettings =
  authRoutes :: AuthRoutes
  remoteResources :: "(string \<times> Resource) list option"
  ownedResources :: "(string \<times> Resource) list option"
  accessMatrix :: "(string \<times> AccessRule) list option"

record AccountInfo =
  homeAccountId :: string
  environment :: string
  tenantId :: string
  username :: string
  idTokenClaims :: "(string \<times> jsval) list option"

record TokenRequest =
  authority :: string
  scopes :: "string list"
  redirectUri :: string
  code :: "string option"

record AuthCodeRequest =
  authority :: string
  scopes :: "string list"
  state :: jsval
  redirectUri :: string
  prompt :: "string option"
  account :: "AccountInfo option"

record AuthCodeParams =
  authority :: string
  scopes :: "string list"
  state :: string
  redirect :: string
  prompt :: "string option"
  account :: "AccountInfo option"

record SilentFlowRequest =
  account :: "AccountInfo option"
  scopes :: "string list"

record TokenResponse =
  accessToken :: string
  idToken :: string
  account :: "AccountInfo option"

text \<open>
  An entry of \<^verbatim>\<open>req.session.remoteResources\<close>, built as
  \<^verbatim>\<open>{...appSettings.remoteResources[name], accessToken: null}\<close>: the configured resource
  whose properties were spread (none when the name is not a configured remote resource)
  and the access token (\<open>None\<close> is \<^verbatim>\<open>null\<close>).
\<close>

record SessionResource =
  configured :: "Resource option"
  accessToken :: "string option"

record Session =
  isAuthenticated :: "bool option"
  account :: "AccountInfo option"
  nonce :: "string option"
  authCodeRequest :: "AuthCodeRequest option"
  tokenRequest :: "TokenRequest option"
  remoteResources :: "(string \<times> SessionResource) list option"

text \<open>
  The parts of the Express request the provider reads: \<^verbatim>\<open>req.session\<close>,
  \<^verbatim>\<open>req.query.state\<close>, \<^verbatim>\<open>req.query.code\<close> (both cast \<^verbatim>\<open>as string\<close>), \<^verbatim>\<open>req.method\<close> (here \<open>http_method\<close>),
  \<^verbatim>\<open>req.route.path\<close> and \<^verbatim>\<open>req.headers.authorization\<close>.
\<close>

record Request =
  session :: "Session option"
  query_state :: "string option"
  query_code :: "string option"
  route_path :: string
  http_method :: string
  headers_authorization :: "string option"

record GuardOptions =
  accessRule :: AccessRule

record TokenOptions =
  resource :: Resource

text \<open>
  What a handler does to the outside, in order: console output, the response, the
  \<^verbatim>\<open>next\<close> callback, and each call of a collaborator (with its arguments).
\<close>

datatype event =
    ConsoleLog string
  | ConsoleLogError js_error
  | ConsoleLogResponse string TokenResponse
  | Redirect jsval
  | Next
  | NextError js_error
  | AcquireTokenByCode TokenRequest
  | AcquireTokenSilent SilentFlowRequest
  | GetAuthCodeUrl AuthCodeRequest
  | ValidateIdToken string
  | ValidateAccessToken "string option" string
  | CallApiEndpoint string string
  | HandlePagination string jsval
  | UnhandledRejection js_error

text \<open>
  How a handler (an \<^verbatim>\<open>async\<close> function) ends: its promise resolves, or it rejects with
  what was thrown and not caught. \<open>final_session\<close> is \<^verbatim>\<open>req.session\<close> at that point.
\<close>

datatype completion = Returned | Threw js_error

record Outcome =
  completion :: completion
  events :: "event list"
  final_session :: "Session option"

definition returned :: "event list \<Rightarrow> Session option \<Rightarrow> Outcome" where
  "returned evs s = \<lparr>completion = Returned, events = evs, final_session = s\<rparr>"

definition threw :: "js_error \<Rightarrow> event list \<Rightarrow> Session option \<Rightarrow> Outcome" where
  "threw e evs s = \<lparr>completion = Threw e, events = evs, final_session = s\<rparr>"

text \<open>
  The provider: its settings, the authority of its MSAL configuration, and the functions
  it calls that are not its own: MSAL's crypto provider and confidential client, the
  token validator, the fetch manager, \<^verbatim>\<open>UrlUtils.ensureAbsoluteUrl\<close> and \<^verbatim>\<open>JSON.parse\<close>.
  A collaborator that rejects or throws returns \<open>Inl\<close>.
\<close>

record AuthProvider =
  appSettings :: AppSettings
  msalConfig_auth_authority :: string
  base64Encode :: "string \<Rightarrow> string"
  base64Decode :: "string \<Rightarrow> string"
  JSON_parse :: "string \<Rightarrow> js_error + jsval"
  ensureAbsoluteUrl :: "Request \<Rightarrow> string \<Rightarrow> string"
  acquireTokenByCode :: "TokenRequest \<Rightarrow> js_error + TokenResponse"
  acquireTokenSilent :: "SilentFlowRequest \<Rightarrow> js_error + TokenResponse"
  getAuthCodeUrl :: "AuthCodeRequest \<Rightarrow> js_error + string"
  validateIdToken :: "string \<Rightarrow> js_error + bool"
  validateAccessToken :: "string option \<Rightarrow> string \<Rightarrow> js_error + bool"
  callApiEndpoint :: "string \<Rightarrow> string \<Rightarrow> js_error + jsval"
  handlePagination :: "string \<Rightarrow> jsval \<Rightarrow> js_error + jsval"

definition unauthorized_route :: "AuthProvider \<Rightarrow> jsval" where
  "unauthorized_route this = JString (unauthorized (authRoutes (appSettings this)))"

section \<open>Resource name resolution\<close>

text \<open>\<^verbatim>\<open>{ ...appSettings.remoteResources, ...appSettings.ownedResources }\<close>\<close>

definition merged_resources :: "AppSettings \<Rightarrow> (string \<times> Resource) list" where
  "merged_resources settings =
     spread_into (spread_into [] (AppSettings.remoteResources settings)) (ownedResources settings)"

definition getResourceNameFromScopes :: "AppSettings \<Rightarrow> string list \<Rightarrow> string option" where
  "getResourceNameFromScopes settings scps =
     (let index =
            findIndex
              (\<lambda>res. JSON_stringify_strings (Resource.scopes res)
                        = JSON_stringify_strings scps)
              (Object_values (merged_resources settings));
          resourceName = element_at (Object_keys (merged_resources settings)) index
      in resourceName)"

section \<open>The redirect handler\<close>

definition Response_label :: string where
  "Response_label = CHR 0x0A # ''Response: '' @ [CHR 0x0A] @ '':''"

definition of_optional_string :: "string option \<Rightarrow> jsval" where
  "of_optional_string x = (case x of None \<Rightarrow> JUndefined | Some s \<Rightarrow> JString s)"

text \<open>
  The members every plain object inherits from \<^verbatim>\<open>Object.prototype\<close>: \<^verbatim>\<open>obj[name]\<close> finds
  them when \<open>obj\<close> has no own property of that name. Each is a function, except
  \<^verbatim>\<open>__proto__\<close>, which reads as \<^verbatim>\<open>Object.prototype\<close> itself.
\<close>

definition Object_prototype_members :: "string list" where
  "Object_prototype_members =
     [''constructor'', ''__defineGetter__'', ''__defineSetter__'', ''hasOwnProperty'',
      ''__lookupGetter__'', ''__lookupSetter__'', ''isPrototypeOf'', ''propertyIsEnumerable'',
      ''toString'', ''valueOf'', ''__proto__'', ''toLocaleString'']"

text \<open>
  \<^verbatim>\<open>req.session.remoteResources[name].accessToken = token\<close>: a \<^verbatim>\<open>TypeError\<close> when the
  mapping is \<^verbatim>\<open>undefined\<close>, or when it has no own property \<open>name\<close> and inherits none
  either. When \<open>name\<close> is only an inherited member, the token is written on that
  member (an object outside the session) and the mapping keeps its own properties.
\<close>

definition assign_accessToken ::
  "(string \<times> SessionResource) list option \<Rightarrow> string \<Rightarrow> string
     \<Rightarrow> js_error + (string \<times> SessionResource) list" where
  "assign_accessToken rr name token =
     (case rr of
        None \<Rightarrow> Inl TypeError
      | Some ps \<Rightarrow>
          (case map_of ps name of
             None \<Rightarrow>
               if name \<in> set Object_prototype_members then Inr ps else Inl TypeError
           | Some entry \<Rightarrow>
               Inr (js_set name (entry\<lparr>SessionResource.accessToken := Some token\<rparr>) ps)))"

text \<open>\<^verbatim>\<open>case AppStages.SIGN_IN\<close> of \<^verbatim>\<open>handleRedirect\<close>, for a request whose session is \<open>s\<close>.\<close>

definition handleRedirect_SIGN_IN :: "AuthProvider \<Rightarrow> Request \<Rightarrow> Session \<Rightarrow> Outcome" where
  "handleRedirect_SIGN_IN this req s =
     (case tokenRequest s of
        None \<Rightarrow> threw TypeError [] (Some s)
      | Some tr \<Rightarrow>
          (let tr' = tr\<lparr>code := query_code req\<rparr>;
               s1 = s\<lparr>tokenRequest := Some tr'\<rparr>
           in case acquireTokenByCode this tr' of
                Inl err \<Rightarrow>
                  returned
                    [AcquireTokenByCode tr',
                     ConsoleLog TOKEN_ACQUISITION_FAILED, ConsoleLogError err, NextError err]
                    (Some s1)
              | Inr tokenResponse \<Rightarrow>
                  (case validateIdToken this (idToken tokenResponse) of
                     Inl err \<Rightarrow>
                       returned
                         [AcquireTokenByCode tr',
                          ConsoleLogResponse Response_label tokenResponse,
                          ValidateIdToken (idToken tokenResponse),
                          ConsoleLog CANNOT_VALIDATE_TOKEN, ConsoleLogError err, NextError err]
                         (Some s1)
                   | Inr isIdTokenValid \<Rightarrow>
                       if isIdTokenValid then
                         returned
                           [AcquireTokenByCode tr',
                            ConsoleLogResponse Response_label tokenResponse,
                            ValidateIdToken (idToken tokenResponse),
                            Redirect (JString (postLogin (authRoutes (appSettings this))))]
                           (Some (s1\<lparr>Session.account := TokenResponse.account tokenResponse,
                                     isAuthenticated := Some True\<rparr>))
                       else
                         returned
                           [AcquireTokenByCode tr',
                            ConsoleLogResponse Response_label tokenResponse,
                            ValidateIdToken (idToken tokenResponse),
                            ConsoleLog INVALID_TOKEN, Redirect (unauthorized_route this)]
                           (Some s1))))"

text \<open>
  \<^verbatim>\<open>case AppStages.ACQUIRE_TOKEN\<close>; \<open>st\<close> is the decoded state. The assignment of the
  access token and the redirect to \<^verbatim>\<open>state.path\<close> are inside the \<^verbatim>\<open>try\<close>.
\<close>

definition handleRedirect_ACQUIRE_TOKEN ::
  "AuthProvider \<Rightarrow> Request \<Rightarrow> Session \<Rightarrow> jsval \<Rightarrow> Outcome" where
  "handleRedirect_ACQUIRE_TOKEN this req s st =
     (case tokenRequest s of
        None \<Rightarrow> threw TypeError [] (Some s)
      | Some tr \<Rightarrow>
          (let resourceName = getResourceNameFromScopes (appSettings this) (TokenRequest.scopes tr);
               tr' = tr\<lparr>code := query_code req\<rparr>;
               s1 = s\<lparr>tokenRequest := Some tr'\<rparr>
           in case acquireTokenByCode this tr' of
                Inl err \<Rightarrow>
                  returned
                    [AcquireTokenByCode tr',
                     ConsoleLog TOKEN_ACQUISITION_FAILED, ConsoleLogError err, NextError err]
                    (Some s1)
              | Inr tokenResponse \<Rightarrow>
                  (case assign_accessToken (Session.remoteResources s1)
                          (property_key resourceName) (TokenResponse.accessToken tokenResponse) of
                     Inl err \<Rightarrow>
                       returned
                         [AcquireTokenByCode tr',
                          ConsoleLogResponse Response_label tokenResponse,
                          ConsoleLog TOKEN_ACQUISITION_FAILED, ConsoleLogError err, NextError err]
                         (Some s1)
                   | Inr rr \<Rightarrow>
                       (case get_member st ''path'' of
                          Inl err \<Rightarrow>
                            returned
                              [AcquireTokenByCode tr',
                               ConsoleLogResponse Response_label tokenResponse,
                               ConsoleLog TOKEN_ACQUISITION_FAILED, ConsoleLogError err,
                               NextError err]
                              (Some (s1\<lparr>Session.remoteResources := Some rr\<rparr>))
                        | Inr path \<Rightarrow>
                            returned
                              [AcquireTokenByCode tr',
                               ConsoleLogResponse Response_label tokenResponse,
                               Redirect path]
                              (Some (s1\<lparr>Session.remoteResources := Some rr\<rparr>))))))"

text \<open>
  \<^verbatim>\<open>handleRedirect\<close>. \<^verbatim>\<open>JSON.parse\<close> and the reads \<^verbatim>\<open>state.nonce\<close> and
  \<^verbatim>\<open>req.session.nonce\<close> are outside every \<^verbatim>\<open>try\<close>. The \<^verbatim>\<open>switch\<close> compares with
  \<^verbatim>\<open>===\<close>.
\<close>

definition handleRedirect :: "AuthProvider \<Rightarrow> Request \<Rightarrow> Outcome" where
  "handleRedirect this req =
     (let state_not_found =
            returned [ConsoleLog STATE_NOT_FOUND, Redirect (unauthorized_route this)] (session req)
      in case query_state req of
           None \<Rightarrow> state_not_found
         | Some qs \<Rightarrow>
             if qs = [] then state_not_found
             else
               (case JSON_parse this (base64Decode this qs) of
                  Inl err \<Rightarrow> threw err [] (session req)
                | Inr st \<Rightarrow>
                    (case get_member st ''nonce'' of
                       Inl err \<Rightarrow> threw err [] (session req)
                     | Inr state_nonce \<Rightarrow>
                         (case session req of
                            None \<Rightarrow> threw TypeError [] None
                          | Some s \<Rightarrow>
                              if strict_equals state_nonce (of_optional_string (nonce s)) then
                                (case get_member st ''stage'' of
                                   Inl err \<Rightarrow> threw err [] (Some s)
                                 | Inr stage \<Rightarrow>
                                     if strict_equals stage (JString SIGN_IN) then
                                       handleRedirect_SIGN_IN this req s
                                     else if strict_equals stage (JString ACQUIRE_TOKEN) then
                                       handleRedirect_ACQUIRE_TOKEN this req s st
                                     else
                                       returned
                                         [ConsoleLog CANNOT_DETERMINE_APP_STAGE,
                                          Redirect (JString (error (authRoutes (appSettings this))))]
                                         (Some s))
                              else
                                returned
                                  [ConsoleLog NONCE_MISMATCH, Redirect (unauthorized_route this)]
                                  (Some s)))))"

text \<open>Whether a run called \<^verbatim>\<open>msalClient.acquireTokenByCode\<close> (the token exchange).\<close>

fun is_token_exchange :: "event \<Rightarrow> bool" where
  "is_token_exchange (AcquireTokenByCode tr) = True"
| "is_token_exchange ev = False"

definition invokes_token_exchange :: "Outcome \<Rightarrow> bool" where
  "invokes_token_exchange r = list_ex is_token_exchange (events r)"

text \<open>The pending token request of the session a run ends with.\<close>

definition session_token_request :: "Outcome \<Rightarrow> TokenRequest option" where
  "session_token_request r = (case final_session r of None \<Rightarrow> None | Some s \<Rightarrow> tokenRequest s)"

section \<open>Token acquisition\<close>

text \<open>
  \<^verbatim>\<open>getAuthCode\<close>, for a request whose session is \<open>s\<close>: the two pending requests are
  overwritten property by property (a \<^verbatim>\<open>TypeError\<close> when one does not exist), then the
  authorization URL is requested; a failure there is logged and nothing is sent.
\<close>

definition getAuthCode :: "AuthProvider \<Rightarrow> Session \<Rightarrow> AuthCodeParams \<Rightarrow> Outcome" where
  "getAuthCode this s params =
     (case authCodeRequest s of
        None \<Rightarrow> threw TypeError [] (Some s)
      | Some acr \<Rightarrow>
          (let acr' = acr\<lparr>AuthCodeRequest.authority := AuthCodeParams.authority params,
                          AuthCodeRequest.scopes := AuthCodeParams.scopes params,
                          AuthCodeRequest.state := JString (AuthCodeParams.state params),
                          AuthCodeRequest.redirectUri := AuthCodeParams.redirect params,
                          AuthCodeRequest.prompt := AuthCodeParams.prompt params,
                          AuthCodeRequest.account := AuthCodeParams.account params\<rparr>;
               s1 = s\<lparr>authCodeRequest := Some acr'\<rparr>
           in case tokenRequest s1 of
                None \<Rightarrow> threw TypeError [] (Some s1)
              | Some tr \<Rightarrow>
                  (let tr' = tr\<lparr>TokenRequest.authority := AuthCodeParams.authority params,
                                TokenRequest.scopes := AuthCodeParams.scopes params,
                                TokenRequest.redirectUri := AuthCodeParams.redirect params\<rparr>;
                       s2 = s1\<lparr>tokenRequest := Some tr'\<rparr>
                   in case getAuthCodeUrl this acr' of
                        Inl err \<Rightarrow>
                          returned
                            [GetAuthCodeUrl acr',
                             ConsoleLog AUTH_CODE_NOT_OBTAINED, ConsoleLogError err]
                            (Some s2)
                      | Inr response \<Rightarrow>
                          returned [GetAuthCodeUrl acr', Redirect (JString response)] (Some s2))))"

definition Silent_label :: string where
  "Silent_label =
     CHR 0x0A # ''Successful silent token acquisition:'' @ [CHR 0x0A] @ '' Response: ''
       @ [CHR 0x0A] @ '':''"

text \<open>
  The \<^verbatim>\<open>catch\<close> block of \<^verbatim>\<open>getToken\<close>, entered with the events so far. \<^verbatim>\<open>getAuthCode\<close>
  is called without \<^verbatim>\<open>await\<close>: what it throws rejects a promise nobody holds.
\<close>

definition getToken_catch ::
  "AuthProvider \<Rightarrow> Request \<Rightarrow> Session \<Rightarrow> string list \<Rightarrow> event list \<Rightarrow> js_error \<Rightarrow> Outcome" where
  "getToken_catch this req s scps evs err =
     (case err of
        InteractionRequiredAuthError msg \<Rightarrow>
          (let st = base64Encode this
                      (JSON_stringify_state ACQUIRE_TOKEN (route_path req) (nonce s));
               params = \<lparr>AuthCodeParams.authority = msalConfig_auth_authority this,
                         AuthCodeParams.scopes = scps,
                         AuthCodeParams.state = st,
                         AuthCodeParams.redirect =
                           ensureAbsoluteUrl this req
                             (AuthRoutes.redirect (authRoutes (appSettings this))),
                         AuthCodeParams.prompt = None,
                         AuthCodeParams.account = Session.account s\<rparr>;
               r = getAuthCode this s params
           in returned
                (evs @ events r
                   @ (case completion r of Returned \<Rightarrow> [] | Threw e \<Rightarrow> [UnhandledRejection e]))
                (final_session r))
      | _ \<Rightarrow> returned (evs @ [NextError err]) (Some s))"

text \<open>The \<^verbatim>\<open>try\<close> block of \<^verbatim>\<open>getToken\<close>, for the session \<open>s\<close> as it is when the block starts.\<close>

definition getToken_acquire ::
  "AuthProvider \<Rightarrow> Request \<Rightarrow> Session \<Rightarrow> string list \<Rightarrow> string option \<Rightarrow> Outcome" where
  "getToken_acquire this req s scps resourceName =
     (let silentRequest =
            \<lparr>SilentFlowRequest.account = Session.account s, SilentFlowRequest.scopes = scps\<rparr>
      in case acquireTokenSilent this silentRequest of
           Inl err \<Rightarrow> getToken_catch this req s scps [AcquireTokenSilent silentRequest] err
         | Inr tokenResponse \<Rightarrow>
             if TokenResponse.accessToken tokenResponse = [] then
               getToken_catch this req s scps
                 [AcquireTokenSilent silentRequest,
                  ConsoleLogResponse Silent_label tokenResponse, ConsoleLog TOKEN_NOT_FOUND]
                 (InteractionRequiredAuthError INTERACTION_REQUIRED)
             else
               (case assign_accessToken (Session.remoteResources s)
                       (property_key resourceName) (TokenResponse.accessToken tokenResponse) of
                  Inl err \<Rightarrow>
                    getToken_catch this req s scps
                      [AcquireTokenSilent silentRequest,
                       ConsoleLogResponse Silent_label tokenResponse]
                      err
                | Inr rr \<Rightarrow>
                    returned
                      [AcquireTokenSilent silentRequest,
                       ConsoleLogResponse Silent_label tokenResponse, Next]
                      (Some (s\<lparr>Session.remoteResources := Some rr\<rparr>))))"

text \<open>
  The statements of \<^verbatim>\<open>getToken\<close> before its \<^verbatim>\<open>try\<close>: the session's \<^verbatim>\<open>remoteResources\<close>
  becomes \<^verbatim>\<open>{}\<close> when it was missing, and then a new object with the one computed key.
  Reading \<^verbatim>\<open>appSettings.remoteResources[resourceName]\<close> throws when no remote resource
  is configured at all. Spreading what is read adds the properties of a configured
  resource and nothing otherwise (\<^verbatim>\<open>undefined\<close>, or an inherited member of
  \<^verbatim>\<open>Object.prototype\<close>, which has no enumerable property of its own).
\<close>

definition getToken_reset ::
  "AuthProvider \<Rightarrow> Session \<Rightarrow> string option \<Rightarrow> js_error \<times> Session + Session" where
  "getToken_reset this s resourceName =
     (let s1 = (if Session.remoteResources s = None then s\<lparr>Session.remoteResources := Some []\<rparr>
                else s)
      in case AppSettings.remoteResources (appSettings this) of
           None \<Rightarrow> Inl (TypeError, s1)
         | Some cfg \<Rightarrow>
             Inr (s1\<lparr>Session.remoteResources :=
                       Some [(property_key resourceName,
                              \<lparr>configured = map_of cfg (property_key resourceName),
                               SessionResource.accessToken = None\<rparr>)]\<rparr>))"

definition getToken :: "AuthProvider \<Rightarrow> TokenOptions \<Rightarrow> Request \<Rightarrow> Outcome" where
  "getToken this options req =
     (let scps = Resource.scopes (resource options);
          resourceName = getResourceNameFromScopes (appSettings this) scps
      in case session req of
           None \<Rightarrow> threw TypeError [] None
         | Some s \<Rightarrow>
             (case getToken_reset this s resourceName of
                Inl (err, s1) \<Rightarrow> threw err [] (Some s1)
              | Inr s2 \<Rightarrow> getToken_acquire this req s2 scps resourceName))"

text \<open>The session's \<^verbatim>\<open>remoteResources\<close> when a run ends, and the entry it holds under a name.\<close>

definition final_remoteResources :: "Outcome \<Rightarrow> (string \<times> SessionResource) list option" where
  "final_remoteResources r =
     (case final_session r of None \<Rightarrow> None | Some s \<Rightarrow> Session.remoteResources s)"

definition stored_entry :: "Outcome \<Rightarrow> string \<Rightarrow> SessionResource option" where
  "stored_entry r k = (case final_remoteResources r of None \<Rightarrow> None | Some ps \<Rightarrow> map_of ps k)"

section \<open>The bearer-token guard\<close>

text \<open>\<^verbatim>\<open>str.split(sep)\<close> for a one-character separator.\<close>

fun split_on :: "char \<Rightarrow> string \<Rightarrow> string list" where
  "split_on sep [] = [[]]"
| "split_on sep (c # cs) =
     (if c = sep then [] # split_on sep cs
      else (case split_on sep cs of [] \<Rightarrow> [[c]] | w # ws \<Rightarrow> (c # w) # ws))"

text \<open>
  \<^verbatim>\<open>isAuthorized\<close>: the header is split before it is tested, so a request without the
  header throws at \<^verbatim>\<open>req.headers.authorization.split\<close>; the \<^verbatim>\<open>else\<close> branch is reached by
  an empty header only.
\<close>

definition isAuthorized :: "AuthProvider \<Rightarrow> Request \<Rightarrow> Outcome" where
  "isAuthorized this req =
     (case headers_authorization req of
        None \<Rightarrow> threw TypeError [] (session req)
      | Some header \<Rightarrow>
          (let token = element_at (split_on CHR '' '' header) 1
           in if header \<noteq> [] then
                (case validateAccessToken this token (route_path req) of
                   Inl err \<Rightarrow> threw err [ValidateAccessToken token (route_path req)] (session req)
                 | Inr valid \<Rightarrow>
                     if \<not> valid then
                       returned
                         [ValidateAccessToken token (route_path req),
                          ConsoleLog INVALID_TOKEN, Redirect (unauthorized_route this)]
                         (session req)
                     else
                       returned [ValidateAccessToken token (route_path req), Next] (session req))
              else
                returned [ConsoleLog TOKEN_NOT_FOUND, Redirect (unauthorized_route this)]
                  (session req)))"

section \<open>Overage resolution\<close>

text \<open>\<^verbatim>\<open>try { body } catch (error) { console.log(error) }\<close>\<close>

definition catch_log :: "Outcome \<Rightarrow> Outcome" where
  "catch_log r =
     (case completion r of
        Returned \<Rightarrow> r
      | Threw err \<Rightarrow> r\<lparr>completion := Returned, events := events r @ [ConsoleLogError err]\<rparr>)"

definition preceded_by :: "event list \<Rightarrow> Outcome \<Rightarrow> Outcome" where
  "preceded_by evs r = r\<lparr>events := evs @ events r\<rparr>"

text \<open>
  \<^verbatim>\<open>const { k1, k2, ...rest } = obj\<close>: a new object with the other properties, copied
  in enumeration order.
\<close>

definition rest_properties :: "string list \<Rightarrow> (string \<times> 'a) list \<Rightarrow> (string \<times> 'a) list" where
  "rest_properties excluded ps =
     fold (\<lambda>(k, v). js_set k v) (filter (\<lambda>(k, v). k \<notin> set excluded) (own_properties ps)) []"

fun map_js :: "('a \<Rightarrow> js_error + 'b) \<Rightarrow> 'a list \<Rightarrow> js_error + 'b list" where
  "map_js f [] = Inr []"
| "map_js f (x # xs) =
     (case f x of
        Inl e \<Rightarrow> Inl e
      | Inr y \<Rightarrow> (case map_js f xs of Inl e \<Rightarrow> Inl e | Inr ys \<Rightarrow> Inr (y # ys)))"

text \<open>
  \<^verbatim>\<open>value.map((v) => v.id)\<close>: only an array has \<^verbatim>\<open>map\<close> (a value that came from JSON holds
  no function).
\<close>

fun map_id :: "jsval \<Rightarrow> js_error + jsval list" where
  "map_id (JArray vs) = map_js (\<lambda>v. get_member v ''id'') vs"
| "map_id v = Inl TypeError"

definition GRAPH_ME_MEMBEROF :: string where
  "GRAPH_ME_MEMBEROF = ''https://graph.microsoft.com/v1.0/me/memberOf''"

text \<open>
  The statements that both branches of \<^verbatim>\<open>handleOverage\<close> end with: the claims are
  replaced by \<^verbatim>\<open>{...newIdTokenClaims, groups: userGroups}\<close> and the rule is applied to the
  new \<^verbatim>\<open>groups\<close> claim; a denial redirects, an approval does nothing more.
\<close>

definition overage_evaluate ::
  "AuthProvider \<Rightarrow> Request \<Rightarrow> Session \<Rightarrow> AccountInfo \<Rightarrow> (string \<times> jsval) list
     \<Rightarrow> AccessRule \<Rightarrow> jsval \<Rightarrow> Outcome" where
  "overage_evaluate this req s acct newIdTokenClaims rule userGroups =
     (let claims' = js_set ''groups'' userGroups (spread_into [] (Some newIdTokenClaims));
          s' = s\<lparr>Session.account := Some (acct\<lparr>idTokenClaims := Some claims'\<rparr>)\<rparr>
      in case applyAccessRule (http_method req) rule (own_prop claims' ''groups'') True of
           (Inl err, logs) \<Rightarrow> threw err (map ConsoleLog logs) (Some s')
         | (Inr allowed, logs) \<Rightarrow>
             if \<not> allowed then
               returned (map ConsoleLog logs @ [Redirect (unauthorized_route this)]) (Some s')
             else returned (map ConsoleLog logs) (Some s'))"

text \<open>The innermost \<^verbatim>\<open>try\<close> block (the response has a continuation link).\<close>

definition overage_paged ::
  "AuthProvider \<Rightarrow> Request \<Rightarrow> Session \<Rightarrow> AccountInfo \<Rightarrow> (string \<times> jsval) list
     \<Rightarrow> AccessRule \<Rightarrow> string \<Rightarrow> jsval \<Rightarrow> Outcome" where
  "overage_paged this req s acct newIdTokenClaims rule token nextLink =
     (case handlePagination this token nextLink of
        Inl err \<Rightarrow> threw err [HandlePagination token nextLink] (Some s)
      | Inr userGroups \<Rightarrow>
          preceded_by [HandlePagination token nextLink]
            (overage_evaluate this req s acct newIdTokenClaims rule userGroups))"

text \<open>The middle \<^verbatim>\<open>try\<close> block (the first call of the directory).\<close>

definition overage_fetch ::
  "AuthProvider \<Rightarrow> Request \<Rightarrow> Session \<Rightarrow> AccountInfo \<Rightarrow> (string \<times> jsval) list
     \<Rightarrow> AccessRule \<Rightarrow> string \<Rightarrow> Outcome" where
  "overage_fetch this req s acct newIdTokenClaims rule token =
     (case callApiEndpoint this GRAPH_ME_MEMBEROF token of
        Inl err \<Rightarrow> threw err [CallApiEndpoint GRAPH_ME_MEMBEROF token] (Some s)
      | Inr graphResponse \<Rightarrow>
          preceded_by [CallApiEndpoint GRAPH_ME_MEMBEROF token]
            (case get_member graphResponse ''@odata.nextLink'' of
               Inl err \<Rightarrow> threw err [] (Some s)
             | Inr nextLink \<Rightarrow>
                 if truthy nextLink then
                   catch_log (overage_paged this req s acct newIdTokenClaims rule token nextLink)
                 else
                   (case get_member graphResponse ''value'' of
                      Inl err \<Rightarrow> threw err [] (Some s)
                    | Inr v \<Rightarrow>
                        (case map_id v of
                           Inl err \<Rightarrow> threw err [] (Some s)
                         | Inr ids \<Rightarrow>
                             overage_evaluate this req s acct newIdTokenClaims rule
                               (JArray ids)))))"

text \<open>
  \<^verbatim>\<open>handleOverage\<close>, for a request whose session is \<open>s\<close>. The destructuring of the claims
  is outside the \<^verbatim>\<open>try\<close> blocks; each \<^verbatim>\<open>catch\<close> only writes the error to the console.
\<close>

definition handleOverage :: "AuthProvider \<Rightarrow> Request \<Rightarrow> Session \<Rightarrow> AccessRule \<Rightarrow> Outcome" where
  "handleOverage this req s rule =
     (case Session.account s of
        None \<Rightarrow> threw TypeError [] (Some s)
      | Some acct \<Rightarrow>
          (case idTokenClaims acct of
             None \<Rightarrow> threw TypeError [] (Some s)
           | Some claims \<Rightarrow>
               (let newIdTokenClaims =
                      rest_properties [''_claim_names'', ''_claim_sources''] claims;
                    silentRequest =
                      \<lparr>SilentFlowRequest.account = Some acct,
                       SilentFlowRequest.scopes = [''User.Read'', ''GroupMember.Read.All'']\<rparr>
                in catch_log
                     (case acquireTokenSilent this silentRequest of
                        Inl err \<Rightarrow> threw err [AcquireTokenSilent silentRequest] (Some s)
                      | Inr tokenResponse \<Rightarrow>
                          preceded_by [AcquireTokenSilent silentRequest]
                            (catch_log
                               (overage_fetch this req s acct newIdTokenClaims rule
                                  (TokenResponse.accessToken tokenResponse)))))))"

text \<open>The silent request \<^verbatim>\<open>handleOverage\<close> builds for the account \<open>acct\<close>.\<close>

definition overage_silent_request :: "AccountInfo \<Rightarrow> SilentFlowRequest" where
  "overage_silent_request acct =
     \<lparr>SilentFlowRequest.account = Some acct,
      SilentFlowRequest.scopes = [''User.Read'', ''GroupMember.Read.All'']\<rparr>"

section \<open>The access guard\<close>

text \<open>\<^verbatim>\<open>req.session.account.idTokenClaims\<close>, about to be indexed.\<close>

definition session_claims :: "Session \<Rightarrow> js_error + (string \<times> jsval) list" where
  "session_claims s =
     (case Session.account s of
        None \<Rightarrow> Inl TypeError
      | Some acct \<Rightarrow> (case idTokenClaims acct of None \<Rightarrow> Inl TypeError | Some claims \<Rightarrow> Inr claims))"

text \<open>
  \<^verbatim>\<open>hasAccess(options)\<close>. \<^verbatim>\<open>hasOwnProperty("groups")\<close> holds when the rule has the optional
  property. The groups branch redirects when the evaluator returns \<^verbatim>\<open>false\<close>; the roles
  branch, as written, redirects when it returns \<^verbatim>\<open>true\<close>.
\<close>

definition hasAccess :: "AuthProvider \<Rightarrow> GuardOptions option \<Rightarrow> Request \<Rightarrow> Outcome" where
  "hasAccess this options req =
     (case session req of
        None \<Rightarrow> returned [Redirect (unauthorized_route this)] None
      | Some s \<Rightarrow>
          if accessMatrix (appSettings this) = None then
            returned [Redirect (unauthorized_route this)] (Some s)
          else
            (case options of
               None \<Rightarrow> threw TypeError [] (Some s)
             | Some opts \<Rightarrow>
                 (let rule = accessRule opts;
                      checkFor = (if groups rule \<noteq> None then GROUPS else ROLES)
                  in if checkFor = GROUPS then
                       (case session_claims s of
                          Inl err \<Rightarrow> threw err [] (Some s)
                        | Inr claims \<Rightarrow>
                            if own_prop claims GROUPS = JUndefined then
                              (if truthy (own_prop claims CLAIM_NAMES)
                                  \<or> truthy (own_prop claims CLAIM_SOURCES)
                               then handleOverage this req s rule
                               else
                                 returned
                                   [ConsoleLog USER_HAS_NO_GROUP, Redirect (unauthorized_route this)]
                                   (Some s))
                            else
                              (case applyAccessRule (http_method req) rule (own_prop claims GROUPS) True of
                                 (Inl err, logs) \<Rightarrow> threw err (map ConsoleLog logs) (Some s)
                               | (Inr allowed, logs) \<Rightarrow>
                                   if \<not> allowed then
                                     returned
                                       (map ConsoleLog logs @ [Redirect (unauthorized_route this)])
                                       (Some s)
                                   else returned (map ConsoleLog logs @ [Next]) (Some s)))
                     else if checkFor = ROLES then
                       (case session_claims s of
                          Inl err \<Rightarrow> threw err [] (Some s)
                        | Inr claims \<Rightarrow>
                            if own_prop claims ROLES = JUndefined then
                              returned
                                [ConsoleLog USER_HAS_NO_ROLE, Redirect (unauthorized_route this)]
                                (Some s)
                            else
                              (case applyAccessRule (http_method req) rule (own_prop claims ROLES) False of
                                 (Inl err, logs) \<Rightarrow> threw err (map ConsoleLog logs) (Some s)
                               | (Inr allowed, logs) \<Rightarrow>
                                   if allowed then
                                     returned
                                       (map ConsoleLog logs @ [Redirect (unauthorized_route this)])
                                       (Some s)
                                   else returned (map ConsoleLog logs @ [Next]) (Some s)))
                     else returned [] (Some s))))"

text \<open>What a run did with the request: the responses and \<^verbatim>\<open>next\<close> calls among its events.\<close>

fun is_decision :: "event \<Rightarrow> bool" where
  "is_decision (Redirect target) = True"
| "is_decision Next = True"
| "is_decision (NextError e) = True"
| "is_decision ev = False"

definition decisions :: "Outcome \<Rightarrow> event list" where
  "decisions r = filter is_decision (events r)"

section \<open>An example application\<close>

text \<open>
  A configuration, a session as \<^verbatim>\<open>signIn\<close> leaves it, and collaborators with fixed
  answers: every call succeeds, every token validates, and \<^verbatim>\<open>base64Decode\<close> and
  \<^verbatim>\<open>JSON.parse\<close> are given on the three state parameters used below (a sign-in
  envelope with the session's nonce, the same with another nonce, and a text that is
  not JSON).
\<close>

definition example_routes :: AuthRoutes where
  "example_routes =
     \<lparr>AuthRoutes.redirect = ''/redirect'', error = ''/error'', unauthorized = ''/unauthorized'',
      postLogin = ''/home'', postLogout = ''/''\<rparr>"

definition example_settings :: AppSettings where
  "example_settings =
     \<lparr>authRoutes = example_routes,
      AppSettings.remoteResources =
        Some [(''graphAPI'', \<lparr>Resource.scopes = [''user.read'']\<rparr>),
              (''7'', \<lparr>Resource.scopes = [''user.read'', ''mail.read'']\<rparr>)],
      ownedResources = Some [(''myAPI'', \<lparr>Resource.scopes = [''access_as_user'']\<rparr>)],
      accessMatrix = Some []\<rparr>"

definition example_account :: AccountInfo where
  "example_account =
     \<lparr>homeAccountId = ''uid.utid'', environment = ''login.microsoftonline.com'',
      tenantId = ''utid'', username = ''ada@example.org'',
      idTokenClaims = Some [(''name'', JString ''Ada''), (''roles'', JArray [JString ''admin''])]\<rparr>"

definition example_response :: TokenResponse where
  "example_response =
     \<lparr>TokenResponse.accessToken = ''access-token-1'', idToken = ''id-token-1'',
      TokenResponse.account = Some example_account\<rparr>"

definition example_base64Decode :: "string \<Rightarrow> string" where
  "example_base64Decode txt =
     (if txt = ''eyJzdGFnZSI6InNpZ25faW4iLCJwYXRoIjoiL3NpZ25pbiIsIm5vbmNlIjoibm9uY2UtMSJ9''
      then JSON_stringify_state SIGN_IN ''/signin'' (Some ''nonce-1'')
      else if txt = ''eyJzdGFnZSI6InNpZ25faW4iLCJwYXRoIjoiL3NpZ25pbiIsIm5vbmNlIjoibm9uY2UtMiJ9''
      then JSON_stringify_state SIGN_IN ''/signin'' (Some ''nonce-2'')
      else if txt = ''bm90IGpzb24='' then ''not json''
      else [])"

definition example_JSON_parse :: "string \<Rightarrow> js_error + jsval" where
  "example_JSON_parse txt =
     (if txt = JSON_stringify_state SIGN_IN ''/signin'' (Some ''nonce-1'')
      then Inr (JObject [(''stage'', JString SIGN_IN), (''path'', JString ''/signin''),
                         (''nonce'', JString ''nonce-1'')])
      else if txt = JSON_stringify_state SIGN_IN ''/signin'' (Some ''nonce-2'')
      then Inr (JObject [(''stage'', JString SIGN_IN), (''path'', JString ''/signin''),
                         (''nonce'', JString ''nonce-2'')])
      else Inl SyntaxError)"

definition example_provider :: AuthProvider where
  "example_provider =
     \<lparr>appSettings = example_settings,
      msalConfig_auth_authority = ''https://login.microsoftonline.com/common'',
      base64Encode = (\<lambda>txt. []),
      base64Decode = example_base64Decode,
      JSON_parse = example_JSON_parse,
      ensureAbsoluteUrl = (\<lambda>req route. ''https://app.example.org'' @ route),
      acquireTokenByCode = (\<lambda>request. Inr example_response),
      acquireTokenSilent = (\<lambda>request. Inr example_response),
      getAuthCodeUrl = (\<lambda>request. Inr ''https://login.microsoftonline.com/common/authorize''),
      validateIdToken = (\<lambda>token. Inr True),
      validateAccessToken = (\<lambda>token path. Inr (token = Some ''access-token-1'')),
      callApiEndpoint =
        (\<lambda>url token. Inr (JObject [(''value'', JArray [JObject [(''id'', JString ''g1'')]])])),
      handlePagination = (\<lambda>token link. Inr (JArray [JString ''g1'', JString ''g2'']))\<rparr>"

definition example_session :: Session where
  "example_session =
     \<lparr>isAuthenticated = None,
      Session.account =
        Some \<lparr>homeAccountId = [], environment = [], tenantId = [], username = [],
              idTokenClaims = Some []\<rparr>,
      nonce = Some ''nonce-1'',
      authCodeRequest =
        Some \<lparr>AuthCodeRequest.authority = ''https://login.microsoftonline.com/common'',
              AuthCodeRequest.scopes = [''openid'', ''profile'', ''offline_access''],
              AuthCodeRequest.state = JString [],
              AuthCodeRequest.redirectUri = ''https://app.example.org/redirect'',
              AuthCodeRequest.prompt = Some ''select_account'',
              AuthCodeRequest.account = None\<rparr>,
      tokenRequest =
        Some \<lparr>TokenRequest.authority = ''https://login.microsoftonline.com/common'',
              TokenRequest.scopes = [''openid'', ''profile'', ''offline_access''],
              TokenRequest.redirectUri = ''https://app.example.org/redirect'',
              code = None\<rparr>,
      Session.remoteResources = None\<rparr>"

definition example_request :: Request where
  "example_request =
     \<lparr>session = Some example_session,
      query_state =
        Some ''eyJzdGFnZSI6InNpZ25faW4iLCJwYXRoIjoiL3NpZ25pbiIsIm5vbmNlIjoibm9uY2UtMSJ9'',
      query_code = Some ''ABC'',
      route_path = ''/redirect'',
      http_method = ''GET'',
      headers_authorization = None\<rparr>"

text \<open>
  The redirect request with the nonce of its envelope changed, and with a state
  parameter that does not decode to JSON.
\<close>

definition forged_request :: Request where
  "forged_request =
     example_request\<lparr>query_state :=
       Some ''eyJzdGFnZSI6InNpZ25faW4iLCJwYXRoIjoiL3NpZ25pbiIsIm5vbmNlIjoibm9uY2UtMiJ9''\<rparr>"

definition undecodable_request :: Request where
  "undecodable_request = example_request\<lparr>query_state := Some ''bm90IGpzb24=''\<rparr>"

text \<open>Collaborators that reject the ID token, and that fail the code exchange.\<close>

definition invalid_token_provider :: AuthProvider where
  "invalid_token_provider = example_provider\<lparr>validateIdToken := (\<lambda>token. Inr False)\<rparr>"

definition failing_exchange_provider :: AuthProvider where
  "failing_exchange_provider =
     example_provider\<lparr>acquireTokenByCode := (\<lambda>request. Inl (OtherError ''invalid_grant''))\<rparr>"

text \<open>
  Two access rules, and a signed-in request of a user with given ID token claims.
\<close>

definition roles_rule :: AccessRule where
  "roles_rule = \<lparr>methods = [''GET''], groups = None, roles = Some [''admin'']\<rparr>"

definition groups_rule :: AccessRule where
  "groups_rule = \<lparr>methods = [''GET''], groups = Some [''g1''], roles = None\<rparr>"

definition session_with_claims :: "(string \<times> jsval) list \<Rightarrow> Session" where
  "session_with_claims claims =
     example_session\<lparr>isAuthenticated := Some True,
       Session.account := Some (example_account\<lparr>idTokenClaims := Some claims\<rparr>)\<rparr>"

definition request_with_claims :: "(string \<times> jsval) list \<Rightarrow> Request" where
  "request_with_claims claims =
     \<lparr>session = Some (session_with_claims claims), query_state = None, query_code = None,
      route_path = ''/admin'', http_method = ''GET'', headers_authorization = None\<rparr>"

text \<open>
  Claims with the overage indicators in place of \<^verbatim>\<open>groups\<close>, and collaborators that
  fail at one stage of overage resolution each.
\<close>

definition overage_claims :: "(string \<times> jsval) list" where
  "overage_claims =
     [(''name'', JString ''Ada''),
      (''_claim_names'', JObject [(''groups'', JString ''src1'')]),
      (''_claim_sources'',
         JObject [(''src1'', JObject [(''endpoint'', JString ''https://graph.example/getMemberObjects'')])])]"

definition failing_silent_provider :: AuthProvider where
  "failing_silent_provider =
     example_provider\<lparr>acquireTokenSilent :=
       (\<lambda>request. Inl (InteractionRequiredAuthError ''no_tokens_found''))\<rparr>"

definition failing_fetch_provider :: AuthProvider where
  "failing_fetch_provider =
     example_provider\<lparr>callApiEndpoint :=
       (\<lambda>url token. Inl (OtherError ''Request failed with status code 503''))\<rparr>"

definition failing_pagination_provider :: AuthProvider where
  "failing_pagination_provider =
     example_provider
       \<lparr>callApiEndpoint :=
          (\<lambda>url token. Inr (JObject [(''@odata.nextLink'', JString ''https://graph.example/page2''),
                                      (''value'', JArray [JObject [(''id'', JString ''g1'')]])])),
        handlePagination := (\<lambda>token link. Inl (OtherError ''Request failed with status code 429''))\<rparr>"

definition overage_account :: AccountInfo where
  "overage_account = example_account\<lparr>idTokenClaims := Some overage_claims\<rparr>"

text \<open>
  A session that holds tokens for two resources, and the options of a \<^verbatim>\<open>getToken\<close>
  middleware for the resource with scope \<^verbatim>\<open>user.read\<close>.
\<close>

definition stale_session :: Session where
  "stale_session =
     example_session
       \<lparr>isAuthenticated := Some True,
        Session.account := Some example_account,
        Session.remoteResources :=
          Some [(''myAPI'', \<lparr>configured = Some \<lparr>Resource.scopes = [''access_as_user'']\<rparr>,
                             SessionResource.accessToken = Some ''old-token-1''\<rparr>),
                (''graphAPI'', \<lparr>configured = Some \<lparr>Resource.scopes = [''user.read'']\<rparr>,
                                SessionResource.accessToken = Some ''old-token-2''\<rparr>)]\<rparr>"

definition stale_request :: Request where
  "stale_request =
     \<lparr>session = Some stale_session, query_state = None, query_code = None,
      route_path = ''/profile'', http_method = ''GET'', headers_authorization = None\<rparr>"

definition graph_options :: TokenOptions where
  "graph_options = \<lparr>resource = \<lparr>Resource.scopes = [''user.read'']\<rparr>\<rparr>"

text \<open>
  The example application without remote resources (its own API only), and the options
  of a \<^verbatim>\<open>getToken\<close> middleware for that API.
\<close>

definition owned_only_provider :: AuthProvider where
  "owned_only_provider =
     example_provider
       \<lparr>appSettings := example_settings\<lparr>AppSettings.remoteResources := None\<rparr>\<rparr>"

definition owned_options :: TokenOptions where
  "owned_options = \<lparr>resource = \<lparr>Resource.scopes = [''access_as_user'']\<rparr>\<rparr>"

section \<open>Properties of the access-rule evaluator\<close>

lemma filter_js_array:
  "filter_js (\<lambda>elem. js_includes (JArray vs) elem) xs = Inr (filter (\<lambda>elem. JString elem \<in> set vs) xs)"
  by (induction xs) simp_all

lemma filter_strings_empty_iff:
  "filter (\<lambda>elem. JString elem \<in> JString ` set creds) xs = [] \<longleftrightarrow> set creds \<inter> set xs = {}"
  by (auto simp: filter_empty_conv)

lemma applyAccessRule_absent_list_throws:
  "meth \<in> set (methods rule) \<Longrightarrow> (if isGroups then groups rule else roles rule) = None \<Longrightarrow>
   applyAccessRule meth rule creds isGroups = (Inl TypeError, [])"
  by (cases isGroups) (simp_all add: applyAccessRule_def)

lemma applyAccessRule_returns:
  "(if isGroups then groups rule else roles rule) \<noteq> None \<Longrightarrow>
   \<exists>verdict. fst (applyAccessRule meth rule (JArray vs) isGroups) = Inr verdict"
  by (cases isGroups) (auto simp: applyAccessRule_def filter_js_array)

text \<open>
  C4. For every rule, method, credential list and value of \<open>isGroups\<close>, the evaluator
  returns allow (\<^verbatim>\<open>true\<close>) exactly when the method is one of \<open>rule.methods\<close> and the
  credentials share at least one element with \<open>rule.groups\<close> (\<open>isGroups\<close>) or
  \<open>rule.roles\<close> (otherwise); one common element is enough, whatever its position.
  (A rule without the list that is asked for has nothing in common with any credentials:
  there the evaluator throws, or denies the method.)
\<close>

theorem applyAccessRule_allow_iff:
  "fst (applyAccessRule meth rule (JArray (map JString creds)) isGroups) = Inr True
     \<longleftrightarrow> meth \<in> set (methods rule) \<and> set creds \<inter> set (required rule isGroups) \<noteq> {}"
  by (cases isGroups; cases "groups rule"; cases "roles rule")
     (simp_all add: applyAccessRule_def required_def filter_js_array filter_strings_empty_iff)

section \<open>\<^verbatim>\<open>JSON.stringify\<close> tells string arrays apart\<close>

lemma hex_digit_inj: "a < 16 \<Longrightarrow> b < 16 \<Longrightarrow> hex_digit a = hex_digit b \<Longrightarrow> a = b"
proof -
  assume a: "a < 16" and b: "b < 16" and eq: "hex_digit a = hex_digit b"
  have d: "distinct ''0123456789abcdef''" by simp
  have l: "length ''0123456789abcdef'' = 16" by simp
  from eq a b have "''0123456789abcdef'' ! a = ''0123456789abcdef'' ! b"
    by (simp add: hex_digit_def)
  with d l a b show "a = b" by (metis nth_eq_iff_index_eq)
qed

lemma quote_char_not_quote: "quote_char c @ r \<noteq> CHR 0x22 # r'"
  by (simp add: quote_char_def)

lemma control_char_eq:
  fixes c d :: char
  assumes "(of_char c :: nat) < 0x20" "(of_char d :: nat) < 0x20"
    and "hex_digit (of_char c div 16) = hex_digit (of_char d div 16)"
    and "hex_digit (of_char c mod 16) = hex_digit (of_char d mod 16)"
  shows "c = d"
proof -
  have "(of_char c :: nat) div 16 = of_char d div 16"
    using assms(1,2,3) by (intro hex_digit_inj) auto
  moreover have "(of_char c :: nat) mod 16 = of_char d mod 16"
    using assms(4) by (intro hex_digit_inj) auto
  ultimately have "(of_char c :: nat) = of_char d"
    by (metis div_mult_mod_eq)
  then show ?thesis by simp
qed

lemma quote_char_prefix_code:
  "quote_char c @ r = quote_char d @ r' \<Longrightarrow> c = d \<and> r = r'"
  by (auto simp: quote_char_def split: if_splits dest: control_char_eq)


lemma quoted_body_prefix_code:
  "concat (map quote_char s) @ CHR 0x22 # r = concat (map quote_char t) @ CHR 0x22 # r'
     \<Longrightarrow> s = t \<and> r = r'"
proof (induction s arbitrary: t)
  case Nil
  show ?case
  proof (cases t)
    case Nil
    with Nil.prems show ?thesis by simp
  next
    case (Cons d t')
    with Nil.prems
    have "quote_char d @ (concat (map quote_char t') @ CHR 0x22 # r') = CHR 0x22 # r"
      by simp
    then show ?thesis using quote_char_not_quote by blast
  qed
next
  case (Cons c s)
  show ?case
  proof (cases t)
    case Nil
    with Cons.prems
    have "quote_char c @ (concat (map quote_char s) @ CHR 0x22 # r) = CHR 0x22 # r'"
      by simp
    then show ?thesis using quote_char_not_quote by blast
  next
    case (Cons d t')
    with Cons.prems
    have "quote_char c @ (concat (map quote_char s) @ CHR 0x22 # r)
            = quote_char d @ (concat (map quote_char t') @ CHR 0x22 # r')"
      by simp
    then have cd: "c = d" and rest: "concat (map quote_char s) @ CHR 0x22 # r
                             = concat (map quote_char t') @ CHR 0x22 # r'"
      using quote_char_prefix_code by blast+
    from Cons.IH [OF rest] have "s = t'" and "r = r'" by simp_all
    with cd Cons show ?thesis by simp
  qed
qed


lemma QuoteJSONString_prefix_code:
  "QuoteJSONString s @ r = QuoteJSONString t @ r' \<Longrightarrow> s = t \<and> r = r'"
  using quoted_body_prefix_code [of s r t r'] by (simp add: QuoteJSONString_def)

lemma QuoteJSONString_not_bracket: "QuoteJSONString s @ r \<noteq> '']''"
  by (simp add: QuoteJSONString_def)

lemma array_body_inj: "array_body xs = array_body ys \<Longrightarrow> xs = ys"
proof (induction xs arbitrary: ys rule: array_body.induct)
  case 1
  show ?case
  proof (cases ys rule: array_body.cases)
    case 1
    then show ?thesis by simp
  next
    case (2 y)
    with "1.prems" have "QuoteJSONString y @ '']'' = '']''" by simp
    then show ?thesis using QuoteJSONString_not_bracket by blast
  next
    case (3 y z zs)
    with "1.prems" have "QuoteJSONString y @ ('','' @ array_body (z # zs)) = '']''" by simp
    then show ?thesis using QuoteJSONString_not_bracket by blast
  qed
next
  case (2 x)
  show ?case
  proof (cases ys rule: array_body.cases)
    case 1
    with "2.prems" have "QuoteJSONString x @ '']'' = '']''" by simp
    then show ?thesis using QuoteJSONString_not_bracket by blast
  next
    case (2 y)
    with "2.prems" have "QuoteJSONString x @ '']'' = QuoteJSONString y @ '']''" by simp
    from QuoteJSONString_prefix_code [OF this] 2 show ?thesis by simp
  next
    case (3 y z zs)
    with "2.prems" have "QuoteJSONString x @ '']'' = QuoteJSONString y @ ('','' @ array_body (z # zs))"
      by simp
    from QuoteJSONString_prefix_code [OF this] show ?thesis by simp
  qed
next
  case (3 x y zs)
  show ?case
  proof (cases ys rule: array_body.cases)
    case 1
    with "3.prems" have "QuoteJSONString x @ ('','' @ array_body (y # zs)) = '']''" by simp
    then show ?thesis using QuoteJSONString_not_bracket by blast
  next
    case (2 y')
    with "3.prems" have "QuoteJSONString x @ ('','' @ array_body (y # zs)) = QuoteJSONString y' @ '']''"
      by simp
    from QuoteJSONString_prefix_code [OF this] show ?thesis by simp
  next
    case (3 x' y' zs')
    with "3.prems" have "QuoteJSONString x @ ('','' @ array_body (y # zs))
                          = QuoteJSONString x' @ ('','' @ array_body (y' # zs'))"
      by simp
    from QuoteJSONString_prefix_code [OF this]
    have x: "x = x'" and b: "array_body (y # zs) = array_body (y' # zs')" by simp_all
    from "3.IH" [OF b] x 3 show ?thesis by simp
  qed
qed

lemma JSON_stringify_strings_eq_iff:
  "JSON_stringify_strings xs = JSON_stringify_strings ys \<longleftrightarrow> xs = ys"
  by (auto simp: JSON_stringify_strings_def dest: array_body_inj)


section \<open>Properties of resource name resolution\<close>

lemma findIndex_lower: "- 1 \<le> findIndex p xs"
  by (induction xs) (auto simp: Let_def)

lemma findIndex_none: "(\<forall>x\<in>set xs. \<not> p x) \<Longrightarrow> findIndex p xs = - 1"
  by (induction xs) (auto simp: Let_def)

lemma findIndex_found:
  "\<exists>x\<in>set xs. p x \<Longrightarrow>
     0 \<le> findIndex p xs \<and> nat (findIndex p xs) < length xs \<and> p (xs ! nat (findIndex p xs))"
proof (induction xs)
  case Nil
  then show ?case by simp
next
  case (Cons x xs)
  show ?case
  proof (cases "p x")
    case True
    then show ?thesis by simp
  next
    case False
    with Cons.prems have "\<exists>y\<in>set xs. p y" by auto
    from Cons.IH [OF this] False show ?thesis
      by (simp add: Let_def nat_add_distrib)
  qed
qed

lemma set_own_properties: "set (own_properties ps) = set ps"
  by (auto simp: own_properties_def)

lemma map_of_replace:
  "map_of (map (\<lambda>(k', v'). if k' = k then (k', v) else (k', v')) qs) x
     = (if x = k then (if k \<in> fst ` set qs then Some v else None) else map_of qs x)"
  by (induction qs) (force simp: image_iff)+

lemma map_of_js_set: "map_of (js_set k v ps) = (map_of ps)(k \<mapsto> v)"
proof (cases "k \<in> fst ` set ps")
  case True
  then show ?thesis by (simp add: js_set_def fun_eq_iff map_of_replace)
next
  case False
  then have "map_of ps k = None" by (simp add: map_of_eq_None_iff)
  with False show ?thesis
    by (auto simp: js_set_def fun_eq_iff map_add_def split: option.splits)
qed

lemma keys_js_set:
  "map fst (js_set k v ps) = (if k \<in> fst ` set ps then map fst ps else map fst ps @ [k])"
  by (auto simp: js_set_def case_prod_unfold)

lemma distinct_keys_js_set: "distinct (map fst ps) \<Longrightarrow> distinct (map fst (js_set k v ps))"
  by (simp add: keys_js_set)

lemma fold_js_set:
  "distinct (map fst ps) \<Longrightarrow>
     distinct (map fst (fold (\<lambda>(k, v). js_set k v) qs ps))
     \<and> map_of (fold (\<lambda>(k, v). js_set k v) qs ps) = map_of ps ++ map_of (rev qs)"
proof (induction qs arbitrary: ps)
  case Nil
  then show ?case by simp
next
  case (Cons q qs)
  obtain k v where q: "q = (k, v)" by (cases q)
  from Cons.prems have "distinct (map fst (js_set k v ps))" by (rule distinct_keys_js_set)
  from Cons.IH [OF this] q show ?case
    by (simp add: map_of_js_set fun_eq_iff map_add_def split: option.splits)
qed

lemma distinct_keys_own_properties:
  "distinct (map fst ps) \<Longrightarrow> distinct (map fst (own_properties ps))"
proof -
  assume d: "distinct (map fst ps)"
  then have "distinct ps" and i: "inj_on fst (set ps)" by (simp_all add: distinct_map)
  then have "distinct (own_properties ps)"
    by (auto simp: own_properties_def)
  with i show ?thesis by (simp add: distinct_map set_own_properties)
qed

lemma map_of_own_properties:
  "distinct (map fst ps) \<Longrightarrow> map_of (own_properties ps) = map_of ps"
  using distinct_keys_own_properties [of ps]
  by (simp add: map_of_inject_set set_own_properties)



lemma spread_into_lookup:
  assumes "distinct (map fst obj)" and "distinct (map fst (properties_of src))"
  shows "distinct (map fst (spread_into obj src))"
    and "map_of (spread_into obj src) = map_of obj ++ map_of (properties_of src)"
proof -
  show "distinct (map fst (spread_into obj src))"
    using assms(1) fold_js_set [OF assms(1)]
    by (simp add: spread_into_def split: option.splits)
  show "map_of (spread_into obj src) = map_of obj ++ map_of (properties_of src)"
  proof (cases src)
    case None
    then show ?thesis by (simp add: spread_into_def properties_of_def)
  next
    case (Some ps)
    with assms(2) have d: "distinct (map fst ps)" by (simp add: properties_of_def)
    from distinct_keys_own_properties [OF d]
    have "map_of (rev (own_properties ps)) = map_of (own_properties ps)"
      by (simp add: map_of_inject_set rev_map [symmetric])
    with d have "map_of (rev (own_properties ps)) = map_of ps"
      by (simp add: map_of_own_properties)
    with Some fold_js_set [OF assms(1), of "own_properties ps"] show ?thesis
      by (simp add: spread_into_def properties_of_def)
  qed
qed

text \<open>
  The merged object \<^verbatim>\<open>{...remoteResources, ...ownedResources}\<close> has each name once, and
  under a name the owned resource if there is one, else the remote one.
\<close>

lemma merged_resources_lookup:
  assumes "distinct (map fst (properties_of (AppSettings.remoteResources settings)))"
    and "distinct (map fst (properties_of (ownedResources settings)))"
  shows "distinct (map fst (merged_resources settings))"
    and "map_of (merged_resources settings)
           = map_of (properties_of (AppSettings.remoteResources settings))
               ++ map_of (properties_of (ownedResources settings))"
proof -
  have e: "distinct (map fst ([] :: (string \<times> Resource) list))" by simp
  note r = spread_into_lookup [OF e assms(1)]
  note o = spread_into_lookup [OF r(1) assms(2)]
  from o(1) show "distinct (map fst (merged_resources settings))"
    by (simp add: merged_resources_def)
  from o(2) r(2) show "map_of (merged_resources settings)
           = map_of (properties_of (AppSettings.remoteResources settings))
               ++ map_of (properties_of (ownedResources settings))"
    by (simp add: merged_resources_def)
qed

lemma resolve_found:
  assumes inj: "inj_on (\<lambda>p. f (snd p)) (set L)"
    and mem: "(name, res) \<in> set L"
  shows "element_at (map fst L) (findIndex (\<lambda>r. f r = f res) (map snd L)) = Some name"
proof -
  let ?i = "findIndex (\<lambda>r. f r = f res) (map snd L)"
  from mem have "\<exists>r\<in>set (map snd L). f r = f res" by force
  note found = findIndex_found [OF this]
  from found have i0: "0 \<le> ?i" by (rule conjunct1)
  from found have il: "nat ?i < length L" by simp
  from found have "f (map snd L ! nat ?i) = f res" by (elim conjE)
  with il have ip: "f (snd (L ! nat ?i)) = f (snd (name, res))" by simp
  from il have "L ! nat ?i \<in> set L" by simp
  from inj_onD [OF inj ip this mem] have "L ! nat ?i = (name, res)" .
  with i0 il show ?thesis by (simp add: element_at_def)
qed

lemma resolve_not_found:
  assumes "\<forall>p \<in> set L. \<not> q (snd p)"
  shows "element_at (map fst L) (findIndex q (map snd L)) = None"
proof -
  from assms have "\<forall>r\<in>set (map snd L). \<not> q r" by simp
  from findIndex_none [OF this] show ?thesis by (simp add: element_at_def)
qed

text \<open>
  C8. When the merged resources (remote, then owned) have pairwise distinct scope
  sequences: resolving the scope sequence of a configured resource returns that
  resource's name, and resolving a scope list that is the scope sequence of no
  configured resource returns \<^verbatim>\<open>undefined\<close>, never a name.
\<close>

theorem getResourceNameFromScopes_inverse:
  assumes "distinct (map (\<lambda>p. Resource.scopes (snd p)) (merged_resources settings))"
  shows "(\<forall>(name, res) \<in> set (merged_resources settings).
            getResourceNameFromScopes settings (Resource.scopes res) = Some name)
       \<and> (\<forall>scps. scps \<notin> (\<lambda>p. Resource.scopes (snd p)) ` set (merged_resources settings)
            \<longrightarrow> getResourceNameFromScopes settings scps = None)"
proof (intro conjI ballI allI impI)
  fix x assume x: "x \<in> set (merged_resources settings)"
  obtain name res where nr: "x = (name, res)" by (cases x)
  from assms have "inj_on (\<lambda>p. Resource.scopes (snd p)) (set (merged_resources settings))"
    by (simp add: distinct_map)
  then have inj: "inj_on (\<lambda>p. Resource.scopes (snd p))
                    (set (own_properties (merged_resources settings)))"
    by (simp add: set_own_properties)
  from x nr have mem: "(name, res) \<in> set (own_properties (merged_resources settings))"
    by (simp add: set_own_properties)
  from resolve_found [OF inj mem]
  have "getResourceNameFromScopes settings (Resource.scopes res) = Some name"
    by (simp add: getResourceNameFromScopes_def Object_keys_def Object_values_def
          JSON_stringify_strings_eq_iff)
  with nr show "case x of (name, res) \<Rightarrow>
                  getResourceNameFromScopes settings (Resource.scopes res) = Some name"
    by simp
next
  fix scps
  assume "scps \<notin> (\<lambda>p. Resource.scopes (snd p)) ` set (merged_resources settings)"
  then have "\<forall>p \<in> set (own_properties (merged_resources settings)).
               \<not> (Resource.scopes (snd p) = scps)"
    by (auto simp: set_own_properties)
  from resolve_not_found [OF this]
  show "getResourceNameFromScopes settings scps = None"
    by (simp add: getResourceNameFromScopes_def Object_keys_def Object_values_def
          JSON_stringify_strings_eq_iff)
qed


lemma example_merged:
  "merged_resources example_settings =
     [(''7'', \<lparr>Resource.scopes = [''user.read'', ''mail.read'']\<rparr>),
      (''graphAPI'', \<lparr>Resource.scopes = [''user.read'']\<rparr>),
      (''myAPI'', \<lparr>Resource.scopes = [''access_as_user'']\<rparr>)]"
  by (simp add: merged_resources_def example_settings_def spread_into_def own_properties_def
        array_index_def decimal_value_def js_set_def)

theorem getResourceNameFromScopes_inverse_witness:
  "distinct (map (\<lambda>p. Resource.scopes (snd p)) (merged_resources example_settings))
   \<and> getResourceNameFromScopes example_settings [''user.read''] = Some ''graphAPI''
   \<and> getResourceNameFromScopes example_settings [''user.read'', ''mail.read''] = Some ''7''
   \<and> getResourceNameFromScopes example_settings [''mail.read'', ''user.read''] = None"
proof -
  have d: "distinct (map (\<lambda>p. Resource.scopes (snd p)) (merged_resources example_settings))"
    by (simp add: example_merged)
  from getResourceNameFromScopes_inverse [OF d] d show ?thesis
    by (simp add: example_merged)
qed


section \<open>Properties of the redirect handler\<close>

lemma example_decode_1:
  "example_JSON_parse (example_base64Decode
      ''eyJzdGFnZSI6InNpZ25faW4iLCJwYXRoIjoiL3NpZ25pbiIsIm5vbmNlIjoibm9uY2UtMSJ9'')
   = Inr (JObject [(''stage'', JString SIGN_IN), (''path'', JString ''/signin''),
                   (''nonce'', JString ''nonce-1'')])"
  by (simp add: example_JSON_parse_def example_base64Decode_def)

lemma example_decode_2:
  "example_JSON_parse (example_base64Decode
      ''eyJzdGFnZSI6InNpZ25faW4iLCJwYXRoIjoiL3NpZ25pbiIsIm5vbmNlIjoibm9uY2UtMiJ9'')
   = Inr (JObject [(''stage'', JString SIGN_IN), (''path'', JString ''/signin''),
                   (''nonce'', JString ''nonce-2'')])"
  by (simp add: example_JSON_parse_def example_base64Decode_def JSON_stringify_state_def
        QuoteJSONString_def quote_char_def)

lemma example_decode_3:
  "example_JSON_parse (example_base64Decode ''bm90IGpzb24='') = Inl SyntaxError"
  by (simp add: example_JSON_parse_def example_base64Decode_def JSON_stringify_state_def
        QuoteJSONString_def quote_char_def)

text \<open>
  C2. A redirect request whose state parameter decodes to a value with a readable
  \<^verbatim>\<open>nonce\<close> that is not (\<^verbatim>\<open>===\<close>) the session's nonce is answered by exactly one
  redirect, to the unauthorized route, after the log line; the token exchange
  (\<^verbatim>\<open>acquireTokenByCode\<close>) is not called and the session is unchanged.
\<close>

theorem handleRedirect_nonce_mismatch:
  assumes "query_state req = Some qs" and "qs \<noteq> []"
    and "JSON_parse this (base64Decode this qs) = Inr st"
    and "get_member st ''nonce'' = Inr state_nonce"
    and "session req = Some s"
    and "\<not> strict_equals state_nonce (of_optional_string (nonce s))"
  shows "handleRedirect this req
           = returned [ConsoleLog NONCE_MISMATCH, Redirect (unauthorized_route this)] (Some s)
         \<and> \<not> invokes_token_exchange (handleRedirect this req)"
  using assms by (simp add: handleRedirect_def invokes_token_exchange_def returned_def)

theorem handleRedirect_nonce_mismatch_witness:
  "query_state forged_request
     = Some ''eyJzdGFnZSI6InNpZ25faW4iLCJwYXRoIjoiL3NpZ25pbiIsIm5vbmNlIjoibm9uY2UtMiJ9''
   \<and> JSON_parse example_provider (base64Decode example_provider
         ''eyJzdGFnZSI6InNpZ25faW4iLCJwYXRoIjoiL3NpZ25pbiIsIm5vbmNlIjoibm9uY2UtMiJ9'')
       = Inr (JObject [(''stage'', JString SIGN_IN), (''path'', JString ''/signin''),
                       (''nonce'', JString ''nonce-2'')])
   \<and> session forged_request = Some example_session
   \<and> nonce example_session = Some ''nonce-1''
   \<and> handleRedirect example_provider forged_request
       = returned [ConsoleLog NONCE_MISMATCH, Redirect (JString ''/unauthorized'')]
           (Some example_session)
   \<and> \<not> invokes_token_exchange (handleRedirect example_provider forged_request)"
proof -
  have q: "query_state forged_request
     = Some ''eyJzdGFnZSI6InNpZ25faW4iLCJwYXRoIjoiL3NpZ25pbiIsIm5vbmNlIjoibm9uY2UtMiJ9''"
    by (simp add: forged_request_def)
  have p: "JSON_parse example_provider (base64Decode example_provider
         ''eyJzdGFnZSI6InNpZ25faW4iLCJwYXRoIjoiL3NpZ25pbiIsIm5vbmNlIjoibm9uY2UtMiJ9'')
       = Inr (JObject [(''stage'', JString SIGN_IN), (''path'', JString ''/signin''),
                       (''nonce'', JString ''nonce-2'')])"
    by (simp add: example_provider_def example_decode_2)
  have n: "get_member (JObject [(''stage'', JString SIGN_IN), (''path'', JString ''/signin''),
                       (''nonce'', JString ''nonce-2'')]) ''nonce'' = Inr (JString ''nonce-2'')"
    by (simp add: own_prop_def)
  have s: "session forged_request = Some example_session"
    by (simp add: forged_request_def example_request_def)
  have m: "nonce example_session = Some ''nonce-1''"
    by (simp add: example_session_def)
  have d: "\<not> strict_equals (JString ''nonce-2'') (of_optional_string (nonce example_session))"
    by (simp add: m of_optional_string_def)
  have u: "unauthorized_route example_provider = JString ''/unauthorized''"
    by (simp add: unauthorized_route_def example_provider_def example_settings_def
          example_routes_def)
  from handleRedirect_nonce_mismatch [OF q _ p n s d] q p s m u show ?thesis
    by (simp add: invokes_token_exchange_def returned_def)
qed


lemma handleRedirect_undecodable:
  "query_state req = Some qs \<Longrightarrow> qs \<noteq> [] \<Longrightarrow> JSON_parse this (base64Decode this qs) = Inl err \<Longrightarrow>
   handleRedirect this req = threw err [] (session req)"
  by (simp add: handleRedirect_def)

lemma handleRedirect_state_missing:
  "query_state req = None \<or> query_state req = Some [] \<Longrightarrow>
   handleRedirect this req
     = returned [ConsoleLog STATE_NOT_FOUND, Redirect (unauthorized_route this)] (session req)"
  by (auto simp: handleRedirect_def)

text \<open>
  C3. Specified: a request whose state parameter is missing or does not decode as JSON
  is redirected to the unauthorized route and nothing is thrown. The missing state is
  handled so (\<open>handleRedirect_state_missing\<close>); for a state that is not JSON,
  \<^verbatim>\<open>JSON.parse\<close> throws outside every \<^verbatim>\<open>try\<close> and the handler rejects with the
  \<^verbatim>\<open>SyntaxError\<close>, without a redirect: here for the state \<^verbatim>\<open>bm90IGpzb24=\<close>
  (\<^verbatim>\<open>not json\<close>).
\<close>

theorem handleRedirect_undecodable_state_throws:
  "handleRedirect example_provider undecodable_request
     = threw SyntaxError [] (Some example_session)"
proof -
  have q: "query_state undecodable_request = Some ''bm90IGpzb24=''"
    by (simp add: undecodable_request_def)
  have p: "JSON_parse example_provider (base64Decode example_provider ''bm90IGpzb24='')
             = Inl SyntaxError"
    by (simp add: example_provider_def example_decode_3)
  have s: "session undecodable_request = Some example_session"
    by (simp add: undecodable_request_def example_request_def)
  from handleRedirect_undecodable [OF q _ p] s show ?thesis by simp
qed

lemma handleRedirect_dispatch_SIGN_IN:
  assumes "query_state req = Some qs" and "qs \<noteq> []"
    and "JSON_parse this (base64Decode this qs) = Inr st"
    and "get_member st ''nonce'' = Inr state_nonce"
    and "get_member st ''stage'' = Inr (JString SIGN_IN)"
    and "session req = Some s"
    and "strict_equals state_nonce (of_optional_string (nonce s))"
  shows "handleRedirect this req = handleRedirect_SIGN_IN this req s"
  using assms by (simp add: handleRedirect_def)

text \<open>
  C7. A redirect request with a \<^verbatim>\<open>sign_in\<close> envelope whose nonce is the session's, for
  a session with a pending token request: the exchange is called, first of all, with the
  pending request carrying the query's \<^verbatim>\<open>code\<close>, and that request stays in the
  session. If the exchange succeeds and the ID token validates, the session's account
  is the returned one, \<^verbatim>\<open>isAuthenticated\<close> is \<^verbatim>\<open>true\<close> and the only response is a
  redirect to the post-login route; if the validator returns \<^verbatim>\<open>false\<close>, a redirect to
  the unauthorized route; if the exchange fails, \<^verbatim>\<open>next(error)\<close> and no redirect.
\<close>

theorem handleRedirect_sign_in:
  assumes "query_state req = Some qs" and "qs \<noteq> []"
    and "JSON_parse this (base64Decode this qs) = Inr st"
    and "get_member st ''nonce'' = Inr state_nonce"
    and "get_member st ''stage'' = Inr (JString SIGN_IN)"
    and "session req = Some s"
    and "strict_equals state_nonce (of_optional_string (nonce s))"
    and "tokenRequest s = Some tr"
  shows "take 1 (events (handleRedirect this req))
           = [AcquireTokenByCode (tr\<lparr>code := query_code req\<rparr>)]
       \<and> session_token_request (handleRedirect this req) = Some (tr\<lparr>code := query_code req\<rparr>)
       \<and> (\<forall>tokenResponse.
             acquireTokenByCode this (tr\<lparr>code := query_code req\<rparr>) = Inr tokenResponse
             \<and> validateIdToken this (idToken tokenResponse) = Inr True
             \<longrightarrow> final_session (handleRedirect this req)
                   = Some (s\<lparr>tokenRequest := Some (tr\<lparr>code := query_code req\<rparr>),
                              Session.account := TokenResponse.account tokenResponse,
                              isAuthenticated := Some True\<rparr>)
                 \<and> decisions (handleRedirect this req)
                   = [Redirect (JString (postLogin (authRoutes (appSettings this))))])
       \<and> (\<forall>tokenResponse.
             acquireTokenByCode this (tr\<lparr>code := query_code req\<rparr>) = Inr tokenResponse
             \<and> validateIdToken this (idToken tokenResponse) = Inr False
             \<longrightarrow> final_session (handleRedirect this req)
                   = Some (s\<lparr>tokenRequest := Some (tr\<lparr>code := query_code req\<rparr>)\<rparr>)
                 \<and> decisions (handleRedirect this req) = [Redirect (unauthorized_route this)])
       \<and> (\<forall>err.
             acquireTokenByCode this (tr\<lparr>code := query_code req\<rparr>) = Inl err
             \<longrightarrow> final_session (handleRedirect this req)
                   = Some (s\<lparr>tokenRequest := Some (tr\<lparr>code := query_code req\<rparr>)\<rparr>)
                 \<and> decisions (handleRedirect this req) = [NextError err])"
proof -
  have d: "handleRedirect this req = handleRedirect_SIGN_IN this req s"
    using assms(1-7) by (rule handleRedirect_dispatch_SIGN_IN)
  show ?thesis
    unfolding d using assms(8)
    by (auto simp: handleRedirect_SIGN_IN_def Let_def returned_def decisions_def
          session_token_request_def split: sum.splits)
qed

lemma example_token_request:
  "tokenRequest example_session =
     Some \<lparr>TokenRequest.authority = ''https://login.microsoftonline.com/common'',
           TokenRequest.scopes = [''openid'', ''profile'', ''offline_access''],
           TokenRequest.redirectUri = ''https://app.example.org/redirect'',
           code = None\<rparr>"
  by (simp add: example_session_def)

theorem handleRedirect_sign_in_witness:
  "query_state example_request
     = Some ''eyJzdGFnZSI6InNpZ25faW4iLCJwYXRoIjoiL3NpZ25pbiIsIm5vbmNlIjoibm9uY2UtMSJ9''
   \<and> session example_request = Some example_session
   \<and> query_code example_request = Some ''ABC''
   \<and> final_session (handleRedirect example_provider example_request)
       = Some (example_session
                 \<lparr>tokenRequest :=
                    Some \<lparr>TokenRequest.authority = ''https://login.microsoftonline.com/common'',
                          TokenRequest.scopes = [''openid'', ''profile'', ''offline_access''],
                          TokenRequest.redirectUri = ''https://app.example.org/redirect'',
                          code = Some ''ABC''\<rparr>,
                  Session.account := Some example_account,
                  isAuthenticated := Some True\<rparr>)
   \<and> decisions (handleRedirect example_provider example_request) = [Redirect (JString ''/home'')]
   \<and> decisions (handleRedirect invalid_token_provider example_request)
       = [Redirect (JString ''/unauthorized'')]
   \<and> decisions (handleRedirect failing_exchange_provider example_request)
       = [NextError (OtherError ''invalid_grant'')]"
proof -
  let ?qs = "''eyJzdGFnZSI6InNpZ25faW4iLCJwYXRoIjoiL3NpZ25pbiIsIm5vbmNlIjoibm9uY2UtMSJ9''"
  let ?st = "JObject [(''stage'', JString SIGN_IN), (''path'', JString ''/signin''),
                      (''nonce'', JString ''nonce-1'')]"
  have q: "query_state example_request = Some ?qs" by (simp add: example_request_def)
  have c: "query_code example_request = Some ''ABC''" by (simp add: example_request_def)
  have ne: "?qs \<noteq> []" by simp
  have p1: "JSON_parse example_provider (base64Decode example_provider ?qs) = Inr ?st"
    by (simp add: example_provider_def example_decode_1)
  have p2: "JSON_parse invalid_token_provider (base64Decode invalid_token_provider ?qs) = Inr ?st"
    by (simp add: invalid_token_provider_def example_provider_def example_decode_1)
  have p3: "JSON_parse failing_exchange_provider (base64Decode failing_exchange_provider ?qs)
              = Inr ?st"
    by (simp add: failing_exchange_provider_def example_provider_def example_decode_1)
  have n: "get_member ?st ''nonce'' = Inr (JString ''nonce-1'')" by (simp add: own_prop_def)
  have g: "get_member ?st ''stage'' = Inr (JString SIGN_IN)" by (simp add: own_prop_def)
  have s: "session example_request = Some example_session" by (simp add: example_request_def)
  have e: "strict_equals (JString ''nonce-1'') (of_optional_string (nonce example_session))"
    by (simp add: example_session_def of_optional_string_def)
  note tr = example_token_request
  have r1: "postLogin (authRoutes (appSettings example_provider)) = ''/home''"
    by (simp add: example_provider_def example_settings_def example_routes_def)
  have r2: "unauthorized_route invalid_token_provider = JString ''/unauthorized''"
    by (simp add: unauthorized_route_def invalid_token_provider_def example_provider_def
          example_settings_def example_routes_def)
  have a1: "acquireTokenByCode example_provider = (\<lambda>request. Inr example_response)"
    and v1: "validateIdToken example_provider = (\<lambda>token. Inr True)"
    by (simp_all add: example_provider_def)
  have a2: "acquireTokenByCode invalid_token_provider = (\<lambda>request. Inr example_response)"
    and v2: "validateIdToken invalid_token_provider = (\<lambda>token. Inr False)"
    by (simp_all add: invalid_token_provider_def example_provider_def)
  have a3: "acquireTokenByCode failing_exchange_provider
              = (\<lambda>request. Inl (OtherError ''invalid_grant''))"
    by (simp add: failing_exchange_provider_def)
  have acc: "TokenResponse.account example_response = Some example_account"
    by (simp add: example_response_def)
  from handleRedirect_sign_in [OF q ne p1 n g s e tr]
       handleRedirect_sign_in [OF q ne p2 n g s e tr]
       handleRedirect_sign_in [OF q ne p3 n g s e tr]
  show ?thesis
    by (simp add: q s c r1 r2 a1 v1 a2 v2 a3 acc)
qed

section \<open>Properties of the bearer-token guard\<close>

lemma isAuthorized_header_present:
  assumes "headers_authorization req = Some header" and "header \<noteq> []"
    and "validateAccessToken this (element_at (split_on CHR '' '' header) 1) (route_path req) = Inr valid"
  shows "decisions (isAuthorized this req) = [if valid then Next else Redirect (unauthorized_route this)]"
    and "completion (isAuthorized this req) = Returned"
  using assms by (simp_all add: isAuthorized_def decisions_def returned_def Let_def)


text \<open>
  C9. Specified: without an authorization header the guard redirects to the
  unauthorized route and does not throw; with one it redirects when validation returns
  \<^verbatim>\<open>false\<close> and calls \<^verbatim>\<open>next\<close> when it returns \<^verbatim>\<open>true\<close>. The second half holds
  for a header that is not the empty string (\<open>isAuthorized_header_present\<close>). A request without the header throws a
  \<^verbatim>\<open>TypeError\<close> at \<^verbatim>\<open>req.headers.authorization.split\<close>, before the test that guards the
  redirect: here for the example request, which has no such header.
\<close>

theorem isAuthorized_no_header_throws:
  "isAuthorized example_provider example_request = threw TypeError [] (Some example_session)"
  by (simp add: isAuthorized_def example_request_def)


section \<open>Properties of the access guard\<close>

lemma hasAccess_roles_branch:
  assumes "session req = Some s" and "accessMatrix (appSettings this) \<noteq> None"
    and "groups rule = None"
    and "session_claims s = Inr claims"
    and "own_prop claims ROLES \<noteq> JUndefined"
    and "applyAccessRule (http_method req) rule (own_prop claims ROLES) False = (Inr allowed, logs)"
  shows "hasAccess this (Some \<lparr>accessRule = rule\<rparr>) req
           = returned (map ConsoleLog logs
                        @ [if allowed then Redirect (unauthorized_route this) else Next]) (Some s)"
  using assms by (auto simp: hasAccess_def GROUPS_def ROLES_def)

lemma hasAccess_groups_absent:
  assumes "session req = Some s" and "accessMatrix (appSettings this) \<noteq> None"
    and "groups rule \<noteq> None"
    and "session_claims s = Inr claims"
    and "own_prop claims ''groups'' = JUndefined"
  shows "hasAccess this (Some \<lparr>accessRule = rule\<rparr>) req
           = (if truthy (own_prop claims ''_claim_name'') \<or> truthy (own_prop claims ''_claim_sources'')
              then handleOverage this req s rule
              else returned [ConsoleLog USER_HAS_NO_GROUP, Redirect (unauthorized_route this)]
                     (Some s))"
  using assms by (auto simp: hasAccess_def GROUPS_def ROLES_def CLAIM_NAMES_def CLAIM_SOURCES_def)

lemma example_unauthorized: "unauthorized_route example_provider = JString ''/unauthorized''"
  by (simp add: unauthorized_route_def example_provider_def example_settings_def
        example_routes_def)

text \<open>
  C1. Specified: under a roles rule, with a \<^verbatim>\<open>roles\<close> claim in the session, the guard
  calls \<^verbatim>\<open>next\<close> when the evaluator allows and redirects to the unauthorized route when
  it denies. The roles branch does the opposite (\<open>hasAccess_roles_branch\<close>): for the rule
  \<^verbatim>\<open>{methods: ["GET"], roles: ["admin"]}\<close> a \<^verbatim>\<open>GET\<close> of a user with role \<^verbatim>\<open>admin\<close> is
  redirected to the unauthorized route, and a \<^verbatim>\<open>GET\<close> of a user with role \<^verbatim>\<open>guest\<close>
  only is passed on.
\<close>

theorem hasAccess_roles_inverted:
  "hasAccess example_provider (Some \<lparr>accessRule = roles_rule\<rparr>)
      (request_with_claims [(''roles'', JArray [JString ''admin''])])
     = returned [Redirect (JString ''/unauthorized'')]
         (Some (session_with_claims [(''roles'', JArray [JString ''admin''])]))
   \<and> hasAccess example_provider (Some \<lparr>accessRule = roles_rule\<rparr>)
      (request_with_claims [(''roles'', JArray [JString ''guest''])])
     = returned [ConsoleLog USER_NOT_IN_ROLE, Next]
         (Some (session_with_claims [(''roles'', JArray [JString ''guest''])]))"
proof -
  have m: "accessMatrix (appSettings example_provider) \<noteq> None"
    by (simp add: example_provider_def example_settings_def)
  have g: "groups roles_rule = None" by (simp add: roles_rule_def)
  have s: "session (request_with_claims claims) = Some (session_with_claims claims)" for claims
    by (simp add: request_with_claims_def)
  have c: "session_claims (session_with_claims claims) = Inr claims" for claims
    by (simp add: session_claims_def session_with_claims_def)
  have h: "http_method (request_with_claims claims) = ''GET''" for claims
    by (simp add: request_with_claims_def)
  have a1: "applyAccessRule ''GET'' roles_rule (own_prop [(''roles'', JArray [JString ''admin''])] ROLES) False
             = (Inr True, [])"
    by (simp add: applyAccessRule_def roles_rule_def own_prop_def ROLES_def)
  have a2: "applyAccessRule ''GET'' roles_rule (own_prop [(''roles'', JArray [JString ''guest''])] ROLES) False
             = (Inr False, [USER_NOT_IN_ROLE])"
    by (simp add: applyAccessRule_def roles_rule_def own_prop_def ROLES_def)
  have u1: "own_prop [(''roles'', JArray [JString ''admin''])] ROLES \<noteq> JUndefined"
    and u2: "own_prop [(''roles'', JArray [JString ''guest''])] ROLES \<noteq> JUndefined"
    by (simp_all add: own_prop_def ROLES_def)
  from hasAccess_roles_branch [OF s m g c u1, of True "[]" ]
       hasAccess_roles_branch [OF s m g c u2, of False "[USER_NOT_IN_ROLE]"]
  show ?thesis by (simp add: h a1 a2 example_unauthorized)
qed

text \<open>
  C6. Specified: under a groups rule and without a \<^verbatim>\<open>groups\<close> claim, overage
  resolution runs exactly when the claims have a key \<^verbatim>\<open>_claim_names\<close> or a key
  \<^verbatim>\<open>_claim_sources\<close>. The guard reads \<^verbatim>\<open>_claim_name\<close> and \<^verbatim>\<open>_claim_sources\<close>
  (\<open>hasAccess_groups_absent\<close>): claims with \<^verbatim>\<open>_claim_names\<close> alone are redirected to the
  unauthorized route, and no call of overage resolution is made.
\<close>

theorem hasAccess_claim_names_not_overage:
  "hasAccess example_provider (Some \<lparr>accessRule = groups_rule\<rparr>)
      (request_with_claims [(''_claim_names'', JObject [(''groups'', JString ''src1'')])])
     = returned [ConsoleLog USER_HAS_NO_GROUP, Redirect (JString ''/unauthorized'')]
         (Some (session_with_claims [(''_claim_names'', JObject [(''groups'', JString ''src1'')])]))"
proof -
  have m: "accessMatrix (appSettings example_provider) \<noteq> None"
    by (simp add: example_provider_def example_settings_def)
  have g: "groups groups_rule \<noteq> None" by (simp add: groups_rule_def)
  have s: "session (request_with_claims claims) = Some (session_with_claims claims)" for claims
    by (simp add: request_with_claims_def)
  have c: "session_claims (session_with_claims claims) = Inr claims" for claims
    by (simp add: session_claims_def session_with_claims_def)
  have u: "own_prop [(''_claim_names'', JObject [(''groups'', JString ''src1'')])] ''groups'' = JUndefined"
    by (simp add: own_prop_def)
  from hasAccess_groups_absent [OF s m g c u]
  show ?thesis by (simp add: own_prop_def example_unauthorized)
qed


section \<open>Properties of overage resolution\<close>

lemma handleOverage_silent_failure:
  assumes "Session.account s = Some acct" and "idTokenClaims acct = Some claims"
    and "acquireTokenSilent this (overage_silent_request acct) = Inl err"
  shows "handleOverage this req s rule
           = returned [AcquireTokenSilent (overage_silent_request acct), ConsoleLogError err] (Some s)"
  using assms
  by (simp add: handleOverage_def overage_silent_request_def catch_log_def threw_def returned_def)

lemma handleOverage_fetch_failure:
  assumes "Session.account s = Some acct" and "idTokenClaims acct = Some claims"
    and "acquireTokenSilent this (overage_silent_request acct) = Inr tokenResponse"
    and "callApiEndpoint this GRAPH_ME_MEMBEROF (TokenResponse.accessToken tokenResponse) = Inl err"
  shows "handleOverage this req s rule
           = returned
               [AcquireTokenSilent (overage_silent_request acct),
                CallApiEndpoint GRAPH_ME_MEMBEROF (TokenResponse.accessToken tokenResponse),
                ConsoleLogError err]
               (Some s)"
  using assms
  by (simp add: handleOverage_def overage_silent_request_def overage_fetch_def catch_log_def
        preceded_by_def threw_def returned_def)

lemma handleOverage_pagination_failure:
  assumes "Session.account s = Some acct" and "idTokenClaims acct = Some claims"
    and "acquireTokenSilent this (overage_silent_request acct) = Inr tokenResponse"
    and "callApiEndpoint this GRAPH_ME_MEMBEROF (TokenResponse.accessToken tokenResponse)
           = Inr graphResponse"
    and "get_member graphResponse ''@odata.nextLink'' = Inr nextLink" and "truthy nextLink"
    and "handlePagination this (TokenResponse.accessToken tokenResponse) nextLink = Inl err"
  shows "handleOverage this req s rule
           = returned
               [AcquireTokenSilent (overage_silent_request acct),
                CallApiEndpoint GRAPH_ME_MEMBEROF (TokenResponse.accessToken tokenResponse),
                HandlePagination (TokenResponse.accessToken tokenResponse) nextLink,
                ConsoleLogError err]
               (Some s)"
  using assms
  by (simp add: handleOverage_def overage_silent_request_def overage_fetch_def overage_paged_def
        catch_log_def preceded_by_def threw_def returned_def)


text \<open>
  C5. Specified: a failure of silent acquisition, of the first directory call or of the
  pagination call is logged and answered by a redirect to the unauthorized route,
  without retry or interactive acquisition. Each \<^verbatim>\<open>catch\<close> writes the error to the
  console and that is all: in the three runs below (one failing stage each) nothing is
  retried and no authorization URL is requested, but no redirect is sent and \<^verbatim>\<open>next\<close>
  is not called either.
\<close>

theorem handleOverage_failure_not_redirected:
  "hasAccess failing_silent_provider (Some \<lparr>accessRule = groups_rule\<rparr>)
      (request_with_claims overage_claims)
     = returned
         [AcquireTokenSilent (overage_silent_request overage_account),
          ConsoleLogError (InteractionRequiredAuthError ''no_tokens_found'')]
         (Some (session_with_claims overage_claims))
   \<and> hasAccess failing_fetch_provider (Some \<lparr>accessRule = groups_rule\<rparr>)
      (request_with_claims overage_claims)
     = returned
         [AcquireTokenSilent (overage_silent_request overage_account),
          CallApiEndpoint GRAPH_ME_MEMBEROF ''access-token-1'',
          ConsoleLogError (OtherError ''Request failed with status code 503'')]
         (Some (session_with_claims overage_claims))
   \<and> hasAccess failing_pagination_provider (Some \<lparr>accessRule = groups_rule\<rparr>)
      (request_with_claims overage_claims)
     = returned
         [AcquireTokenSilent (overage_silent_request overage_account),
          CallApiEndpoint GRAPH_ME_MEMBEROF ''access-token-1'',
          HandlePagination ''access-token-1'' (JString ''https://graph.example/page2''),
          ConsoleLogError (OtherError ''Request failed with status code 429'')]
         (Some (session_with_claims overage_claims))"
proof -
  let ?s = "session_with_claims overage_claims"
  let ?req = "request_with_claims overage_claims"
  have m: "accessMatrix (appSettings failing_silent_provider) \<noteq> None"
          "accessMatrix (appSettings failing_fetch_provider) \<noteq> None"
          "accessMatrix (appSettings failing_pagination_provider) \<noteq> None"
    by (simp_all add: failing_silent_provider_def failing_fetch_provider_def
          failing_pagination_provider_def example_provider_def example_settings_def)
  have g: "groups groups_rule \<noteq> None" by (simp add: groups_rule_def)
  have s: "session ?req = Some ?s" by (simp add: request_with_claims_def)
  have c: "session_claims ?s = Inr overage_claims"
    by (simp add: session_claims_def session_with_claims_def)
  have u: "own_prop overage_claims ''groups'' = JUndefined"
    by (simp add: own_prop_def overage_claims_def)
  have t: "truthy (own_prop overage_claims ''_claim_sources'')"
    by (simp add: own_prop_def overage_claims_def)
  have a: "Session.account ?s = Some overage_account"
    by (simp add: session_with_claims_def overage_account_def)
  have i: "idTokenClaims overage_account = Some overage_claims"
    by (simp add: overage_account_def)
  have o1: "hasAccess failing_silent_provider (Some \<lparr>accessRule = groups_rule\<rparr>) ?req
              = handleOverage failing_silent_provider ?req ?s groups_rule"
    and o2: "hasAccess failing_fetch_provider (Some \<lparr>accessRule = groups_rule\<rparr>) ?req
              = handleOverage failing_fetch_provider ?req ?s groups_rule"
    and o3: "hasAccess failing_pagination_provider (Some \<lparr>accessRule = groups_rule\<rparr>) ?req
              = handleOverage failing_pagination_provider ?req ?s groups_rule"
    using hasAccess_groups_absent [OF s m(1) g c u] hasAccess_groups_absent [OF s m(2) g c u]
      hasAccess_groups_absent [OF s m(3) g c u] t
    by simp_all
  have f1: "acquireTokenSilent failing_silent_provider (overage_silent_request overage_account)
              = Inl (InteractionRequiredAuthError ''no_tokens_found'')"
    by (simp add: failing_silent_provider_def)
  have f2: "acquireTokenSilent failing_fetch_provider (overage_silent_request overage_account)
              = Inr example_response"
           "callApiEndpoint failing_fetch_provider GRAPH_ME_MEMBEROF
                (TokenResponse.accessToken example_response)
              = Inl (OtherError ''Request failed with status code 503'')"
    by (simp_all add: failing_fetch_provider_def example_provider_def)
  let ?page = "JObject [(''@odata.nextLink'', JString ''https://graph.example/page2''),
                        (''value'', JArray [JObject [(''id'', JString ''g1'')]])]"
  have f3: "acquireTokenSilent failing_pagination_provider (overage_silent_request overage_account)
              = Inr example_response"
           "callApiEndpoint failing_pagination_provider GRAPH_ME_MEMBEROF
                (TokenResponse.accessToken example_response) = Inr ?page"
           "get_member ?page ''@odata.nextLink'' = Inr (JString ''https://graph.example/page2'')"
           "truthy (JString ''https://graph.example/page2'')"
           "handlePagination failing_pagination_provider
                (TokenResponse.accessToken example_response) (JString ''https://graph.example/page2'')
              = Inl (OtherError ''Request failed with status code 429'')"
    by (simp_all add: failing_pagination_provider_def example_provider_def own_prop_def)
  have tok: "TokenResponse.accessToken example_response = ''access-token-1''"
    by (simp add: example_response_def)
  show ?thesis
    unfolding o1 o2 o3
    using handleOverage_silent_failure [OF a i f1, of ?req groups_rule]
      handleOverage_fetch_failure [OF a i f2, of ?req groups_rule]
      handleOverage_pagination_failure [OF a i f3, of ?req groups_rule]
    by (simp add: tok)
qed


section \<open>Properties of token acquisition\<close>

lemma assign_accessToken_inherited:
  "map_of ps name = None \<Longrightarrow> name \<in> set Object_prototype_members \<Longrightarrow>
   assign_accessToken (Some ps) name token = Inr ps"
  by (simp add: assign_accessToken_def)

lemma getToken_reset_configured:
  assumes "AppSettings.remoteResources (appSettings this) = Some cfg"
  shows "getToken_reset this s resourceName
           = Inr (s\<lparr>Session.remoteResources :=
                      Some [(property_key resourceName,
                             \<lparr>configured = map_of cfg (property_key resourceName),
                              SessionResource.accessToken = None\<rparr>)]\<rparr>)"
  using assms by (simp add: getToken_reset_def)

lemma getAuthCode_remoteResources:
  "final_remoteResources (getAuthCode this s params) = Session.remoteResources s"
  by (simp add: getAuthCode_def final_remoteResources_def threw_def returned_def Let_def
        split: option.splits sum.splits)

lemma getToken_catch_remoteResources:
  "final_remoteResources (getToken_catch this req s scps evs err) = Session.remoteResources s"
  using getAuthCode_remoteResources
  by (cases err) (simp_all add: getToken_catch_def final_remoteResources_def returned_def Let_def)

lemma getToken_acquire_single:
  assumes "Session.remoteResources s = Some [(property_key resourceName, entry)]"
  shows "\<exists>token. final_remoteResources (getToken_acquire this req s scps resourceName)
           = Some [(property_key resourceName, entry\<lparr>SessionResource.accessToken := token\<rparr>)]"
proof (cases "acquireTokenSilent this
                \<lparr>SilentFlowRequest.account = Session.account s, SilentFlowRequest.scopes = scps\<rparr>")
  case (Inl err)
  then have "final_remoteResources (getToken_acquire this req s scps resourceName)
               = Some [(property_key resourceName, entry)]"
    by (simp add: getToken_acquire_def getToken_catch_remoteResources assms)
  then have "final_remoteResources (getToken_acquire this req s scps resourceName)
               = Some [(property_key resourceName,
                        entry\<lparr>SessionResource.accessToken := SessionResource.accessToken entry\<rparr>)]"
    by simp
  then show ?thesis by blast
next
  case (Inr tokenResponse)
  show ?thesis
  proof (cases "TokenResponse.accessToken tokenResponse = []")
    case True
    with Inr have "final_remoteResources (getToken_acquire this req s scps resourceName)
               = Some [(property_key resourceName,
                        entry\<lparr>SessionResource.accessToken := SessionResource.accessToken entry\<rparr>)]"
      by (simp add: getToken_acquire_def getToken_catch_remoteResources assms)
    then show ?thesis by blast
  next
    case False
    with Inr have "final_remoteResources (getToken_acquire this req s scps resourceName)
               = Some [(property_key resourceName,
                        entry\<lparr>SessionResource.accessToken :=
                                 Some (TokenResponse.accessToken tokenResponse)\<rparr>)]"
      by (simp add: getToken_acquire_def assign_accessToken_def js_set_def assms
            final_remoteResources_def returned_def)
    then show ?thesis by blast
  qed
qed

text \<open>
  Without the precondition on the configuration the replacement does not happen: in an
  application that configures its own API only, \<^verbatim>\<open>getToken\<close> for that API resolves the
  name \<^verbatim>\<open>myAPI\<close> and then throws at \<^verbatim>\<open>appSettings.remoteResources[resourceName]\<close>,
  before the assignment; the session keeps both of its old entries and their tokens.
\<close>

theorem getToken_unconfigured_keeps_entries:
  "getResourceNameFromScopes (appSettings owned_only_provider)
       (Resource.scopes (resource owned_options)) = Some ''myAPI''
   \<and> getToken owned_only_provider owned_options stale_request
       = threw TypeError [] (Some stale_session)
   \<and> final_remoteResources (getToken owned_only_provider owned_options stale_request)
       = Some [(''myAPI'', \<lparr>configured = Some \<lparr>Resource.scopes = [''access_as_user'']\<rparr>,
                             SessionResource.accessToken = Some ''old-token-1''\<rparr>),
               (''graphAPI'', \<lparr>configured = Some \<lparr>Resource.scopes = [''user.read'']\<rparr>,
                                SessionResource.accessToken = Some ''old-token-2''\<rparr>)]
   \<and> stored_entry (getToken owned_only_provider owned_options stale_request) ''graphAPI''
       = Some \<lparr>configured = Some \<lparr>Resource.scopes = [''user.read'']\<rparr>,
               SessionResource.accessToken = Some ''old-token-2''\<rparr>"
proof -
  have merged: "merged_resources (example_settings\<lparr>AppSettings.remoteResources := None\<rparr>)
                  = [(''myAPI'', \<lparr>Resource.scopes = [''access_as_user'']\<rparr>)]"
    by (simp add: merged_resources_def example_settings_def spread_into_def own_properties_def
          array_index_def decimal_value_def js_set_def)
  have name: "getResourceNameFromScopes (example_settings\<lparr>AppSettings.remoteResources := None\<rparr>)
                [''access_as_user''] = Some ''myAPI''"
    by (simp add: getResourceNameFromScopes_def merged Object_keys_def Object_values_def
          own_properties_def array_index_def decimal_value_def element_at_def)
  have run: "getToken owned_only_provider owned_options stale_request
               = threw TypeError [] (Some stale_session)"
    by (simp add: getToken_def getToken_reset_def owned_only_provider_def owned_options_def
          stale_request_def stale_session_def Let_def)
  have old: "Session.remoteResources stale_session
       = Some [(''myAPI'', \<lparr>configured = Some \<lparr>Resource.scopes = [''access_as_user'']\<rparr>,
                             SessionResource.accessToken = Some ''old-token-1''\<rparr>),
               (''graphAPI'', \<lparr>configured = Some \<lparr>Resource.scopes = [''user.read'']\<rparr>,
                                SessionResource.accessToken = Some ''old-token-2''\<rparr>)]"
    by (simp add: stale_session_def)
  from name have n: "getResourceNameFromScopes (appSettings owned_only_provider)
       (Resource.scopes (resource owned_options)) = Some ''myAPI''"
    by (simp add: owned_only_provider_def owned_options_def)
  show ?thesis
    unfolding run
    by (simp add: n old final_remoteResources_def stored_entry_def threw_def)
qed

text \<open>
  C10 (with its precondition). For a request with a session, in an application whose
  \<^verbatim>\<open>remoteResources\<close> is configured: \<^verbatim>\<open>getToken\<close> runs its acquisition on the session
  whose \<^verbatim>\<open>remoteResources\<close> is the one entry for the resolved name \<open>R\<close>, with a \<^verbatim>\<open>null\<close>
  access token; when the middleware ends, on any path, \<^verbatim>\<open>remoteResources\<close> still is that
  one entry (with the token set or not), and nothing is stored under any other name.
\<close>

theorem getToken_replaces_remoteResources:
  assumes "session req = Some s"
    and "AppSettings.remoteResources (appSettings this) = Some cfg"
    and "resourceName = getResourceNameFromScopes (appSettings this) (Resource.scopes (resource options))"
    and "fresh = \<lparr>configured = map_of cfg (property_key resourceName),
                   SessionResource.accessToken = None\<rparr>"
  shows "getToken this options req
           = getToken_acquire this req
               (s\<lparr>Session.remoteResources := Some [(property_key resourceName, fresh)]\<rparr>)
               (Resource.scopes (resource options)) resourceName
       \<and> (\<exists>token. final_remoteResources (getToken this options req)
             = Some [(property_key resourceName, fresh\<lparr>SessionResource.accessToken := token\<rparr>)])
       \<and> (\<forall>k. k \<noteq> property_key resourceName \<longrightarrow> stored_entry (getToken this options req) k = None)"
proof -
  let ?s2 = "s\<lparr>Session.remoteResources := Some [(property_key resourceName, fresh)]\<rparr>"
  have eq: "getToken this options req
              = getToken_acquire this req ?s2 (Resource.scopes (resource options)) resourceName"
    using assms by (simp add: getToken_def getToken_reset_configured Let_def)
  have "Session.remoteResources ?s2 = Some [(property_key resourceName, fresh)]" by simp
  from getToken_acquire_single [OF this]
  obtain token where tok: "final_remoteResources (getToken this options req)
             = Some [(property_key resourceName, fresh\<lparr>SessionResource.accessToken := token\<rparr>)]"
    unfolding eq by blast
  then have "\<forall>k. k \<noteq> property_key resourceName \<longrightarrow> stored_entry (getToken this options req) k = None"
    by (simp add: stored_entry_def)
  with eq tok show ?thesis by blast
qed


lemma example_resolve_graph:
  "getResourceNameFromScopes example_settings [''user.read''] = Some ''graphAPI''"
  by (simp add: getResourceNameFromScopes_def example_merged Object_keys_def Object_values_def
        own_properties_def array_index_def decimal_value_def JSON_stringify_strings_eq_iff
        element_at_def)

theorem getToken_replaces_remoteResources_witness:
  "session stale_request = Some stale_session
   \<and> stored_entry (returned [] (Some stale_session)) ''myAPI''
       = Some \<lparr>configured = Some \<lparr>Resource.scopes = [''access_as_user'']\<rparr>,
               SessionResource.accessToken = Some ''old-token-1''\<rparr>
   \<and> getResourceNameFromScopes (appSettings example_provider)
         (Resource.scopes (resource graph_options)) = Some ''graphAPI''
   \<and> final_remoteResources (getToken example_provider graph_options stale_request)
       = Some [(''graphAPI'', \<lparr>configured = Some \<lparr>Resource.scopes = [''user.read'']\<rparr>,
                                SessionResource.accessToken = Some ''access-token-1''\<rparr>)]
   \<and> stored_entry (getToken example_provider graph_options stale_request) ''myAPI'' = None"
proof -
  have s: "session stale_request = Some stale_session" by (simp add: stale_request_def)
  have old: "stored_entry (returned [] (Some stale_session)) ''myAPI''
       = Some \<lparr>configured = Some \<lparr>Resource.scopes = [''access_as_user'']\<rparr>,
               SessionResource.accessToken = Some ''old-token-1''\<rparr>"
    by (simp add: stored_entry_def final_remoteResources_def returned_def stale_session_def)
  have cfg: "AppSettings.remoteResources (appSettings example_provider)
               = Some [(''graphAPI'', \<lparr>Resource.scopes = [''user.read'']\<rparr>),
                       (''7'', \<lparr>Resource.scopes = [''user.read'', ''mail.read'']\<rparr>)]"
    by (simp add: example_provider_def example_settings_def)
  have name': "getResourceNameFromScopes (appSettings example_provider) [''user.read'']
                 = Some ''graphAPI''"
    by (simp add: example_provider_def example_resolve_graph)
  then have name: "getResourceNameFromScopes (appSettings example_provider)
                (Resource.scopes (resource graph_options)) = Some ''graphAPI''"
    by (simp add: graph_options_def)
  note t = getToken_replaces_remoteResources [OF s cfg refl refl, of graph_options]
  have silent: "acquireTokenSilent example_provider = (\<lambda>request. Inr example_response)"
    by (simp add: example_provider_def)
  from t have "getToken example_provider graph_options stale_request
      = getToken_acquire example_provider stale_request
          (stale_session\<lparr>Session.remoteResources :=
             Some [(''graphAPI'', \<lparr>configured = Some \<lparr>Resource.scopes = [''user.read'']\<rparr>,
                                   SessionResource.accessToken = None\<rparr>)]\<rparr>)
          [''user.read''] (Some ''graphAPI'')"
    by (simp add: name' property_key_def graph_options_def)
  then have fin: "final_remoteResources (getToken example_provider graph_options stale_request)
       = Some [(''graphAPI'', \<lparr>configured = Some \<lparr>Resource.scopes = [''user.read'']\<rparr>,
                                SessionResource.accessToken = Some ''access-token-1''\<rparr>)]"
    by (simp add: getToken_acquire_def silent example_response_def assign_accessToken_def
          js_set_def property_key_def final_remoteResources_def returned_def)
  have "''myAPI'' \<noteq> property_key (getResourceNameFromScopes (appSettings example_provider)
                                      (Resource.scopes (resource graph_options)))"
    by (simp add: name property_key_def)
  from t [THEN conjunct2, THEN conjunct2, rule_format, OF this]
  have "stored_entry (getToken example_provider graph_options stale_request) ''myAPI'' = None" .
  with s old name fin show ?thesis by simp
qed


end
